theory Spec2Isabelle
  imports Complex_Main "HOL-Library.AList"
begin

section \<open>Shellsword: the duel server of \<^verbatim>\<open>src/auto-player.js\<close>\<close>

text \<open>
  A shallow embedding of the server half of \<^verbatim>\<open>src/auto-player.js\<close> (the part after the
  auto-player client): the turn resolution rules, the per-game state machine, the turn
  timer, the matchmaking queue, the move-submission and state handlers, and the startup
  reconstruction of the registries from the database rows.

  JavaScript numbers that hold turn counts, scores and distances are modelled as \<open>int\<close>;
  every draw of \<^verbatim>\<open>Math.random()\<close> is an explicit \<open>real\<close> argument (a value of \<open>[0,1)\<close>
  in the program); \<^verbatim>\<open>Date.now()\<close> is an explicit \<open>int\<close> argument; \<^verbatim>\<open>genToken()\<close> is an
  explicit \<open>string\<close> argument. One run of a handler or callback reads the clock once.
  Output that leaves the process without changing its state (console logging, the
  WebSocket broadcast, the queue webhook) is not part of the model.
\<close>

subsection \<open>Data model\<close>

datatype move = Advance | Retreat | Lunge | Parry

datatype phase = Input | Over

datatype playerId = P1 | P2

datatype winner = WinP1 | WinP2 | SuddenDeath

text \<open>
  The game object of \<^verbatim>\<open>createGame\<close> (and of the exhibition handler, which builds its
  object by hand). \<^verbatim>\<open>scores\<close> and \<^verbatim>\<open>moves\<close> are flattened to two fields each; a move
  slot is \<open>None\<close> for \<^verbatim>\<open>null\<close>. \<open>maxTurns\<close> is \<open>None\<close> for the exhibition object, which
  has no such property. \<open>turnTimer\<close> holds the handle returned by \<^verbatim>\<open>setTimeout\<close>.
  \<open>moveWaiters\<close> counts the registered long-poll callbacks. \<open>botDifficulty\<close> is \<open>None\<close> for
  \<^verbatim>\<open>undefined\<close>. \<open>p1\<close>, \<open>p2\<close> are the tokens of an exhibition game.
\<close>

record game =
  game_id :: string
  phase :: phase
  turn :: int
  distance :: int
  scores_p1 :: int
  scores_p2 :: int
  moves_p1 :: "move option"
  moves_p2 :: "move option"
  lastResult :: string
  winner :: "winner option"
  p1Name :: string
  p2Name :: string
  turnTimer :: "nat option"
  moveWaiters :: nat
  maxTurns :: "int option"
  botDifficulty :: "string option"
  botSide :: "playerId option"
  exhibition :: bool
  botP1Difficulty :: "string option"
  botP2Difficulty :: "string option"
  p1Token :: "string option"
  p2Token :: "string option"
  p1 :: "string option"
  p2 :: "string option"

definition createGame :: "string \<Rightarrow> game" where
  "createGame i =
     \<lparr> game_id = i, phase = Input, turn = 0, distance = 4,
       scores_p1 = 0, scores_p2 = 0, moves_p1 = None, moves_p2 = None,
       lastResult = [], winner = None, p1Name = [], p2Name = [],
       turnTimer = None, moveWaiters = 0, maxTurns = Some 30,
       botDifficulty = None, botSide = None, exhibition = False,
       botP1Difficulty = None, botP2Difficulty = None,
       p1Token = None, p2Token = None, p1 = None, p2 = None \<rparr>"

subsection \<open>Move resolution (\<^verbatim>\<open>validateMove\<close>, \<^verbatim>\<open>resolveTurn\<close>)\<close>

text \<open>The four strings of \<^verbatim>\<open>validMoves\<close>; \<open>None\<close> when \<^verbatim>\<open>includes\<close> is false.\<close>

definition parseMove :: "string \<Rightarrow> move option" where
  "parseMove s =
     (if s = ''advance'' then Some Advance
      else if s = ''retreat'' then Some Retreat
      else if s = ''lunge'' then Some Lunge
      else if s = ''parry'' then Some Parry
      else None)"

definition validateMove :: "string \<Rightarrow> bool" where
  "validateMove s = (parseMove s \<noteq> None)"

text \<open>How a move slot prints inside a template string.\<close>

fun moveStr :: "move option \<Rightarrow> string" where
  "moveStr (Some Advance) = ''advance''"
| "moveStr (Some Retreat) = ''retreat''"
| "moveStr (Some Lunge) = ''lunge''"
| "moveStr (Some Parry) = ''parry''"
| "moveStr None = ''null''"

text \<open>The arrow of the narrative strings (U+2192), as its three UTF-8 bytes.\<close>

definition arrow :: string where
  "arrow = [CHR 0xE2, CHR 0x86, CHR 0x92]"

text \<open>
  \<^verbatim>\<open>if (other === 'advance') newDistance = Math.max(1, newDistance - 1);
  else if (other === 'retreat') newDistance = Math.min(6, newDistance + 1);\<close>
\<close>

definition applyMovement :: "move option \<Rightarrow> int \<Rightarrow> int" where
  "applyMovement other d =
     (if other = Some Advance then max 1 (d - 1)
      else if other = Some Retreat then min 6 (d + 1)
      else d)"

text \<open>\<^verbatim>\<open>movements.join(', ')\<close>\<close>

fun joinComma :: "string list \<Rightarrow> string" where
  "joinComma [] = []"
| "joinComma [x] = x"
| "joinComma (x # y # ys) = x @ '', '' @ joinComma (y # ys)"

text \<open>
  The rule cascade of \<^verbatim>\<open>resolveTurn\<close> (the local variables \<^verbatim>\<open>newDistance\<close>, \<^verbatim>\<open>result\<close>,
  \<^verbatim>\<open>scoreP1\<close>, \<^verbatim>\<open>scoreP2\<close> before the scores are applied). \<open>rnd\<close> is the value of
  \<^verbatim>\<open>Math.random()\<close> read in the distance-2 branch.
\<close>

definition resolveMoves ::
  "move option \<Rightarrow> move option \<Rightarrow> int \<Rightarrow> real \<Rightarrow> int \<times> string \<times> bool \<times> bool" where
  "resolveMoves p1Move p2Move d rnd =
     (if p1Move = Some Lunge \<and> p2Move = Some Lunge \<and> d = 1 then
        (d, ''Both fencers lunge simultaneously at close range '' @ arrow @ '' DOUBLE HIT!'',
         True, True)
      else if (p1Move = Some Lunge \<and> p2Move = Some Parry)
            \<or> (p1Move = Some Parry \<and> p2Move = Some Lunge) then
        (if p1Move = Some Lunge \<and> p2Move = Some Parry then
           (d, ''P1 lunges '' @ arrow @ '' P2 PARRIES '' @ arrow @ '' RIPOSTE! P2 scores.'',
            False, True)
         else
           (d, ''P2 lunges '' @ arrow @ '' P1 PARRIES '' @ arrow @ '' RIPOSTE! P1 scores.'',
            True, False))
      else if p1Move = Some Lunge \<or> p2Move = Some Lunge then
        (let lunger = (if p1Move = Some Lunge then ''P1'' else ''P2'');
             other = (if p1Move = Some Lunge then p2Move else p1Move);
             otherPlayer = (if p1Move = Some Lunge then ''P2'' else ''P1'')
         in if d = 1 then
              (d, lunger @ '' lunges at close range '' @ arrow @ '' HIT! '' @ lunger
                    @ '' scores.'',
               p1Move = Some Lunge, p1Move \<noteq> Some Lunge)
            else if d = 2 then
              (if rnd < 0.5 then
                 (d, lunger @ '' lunges at medium range '' @ arrow @ '' CLOSE HIT! '' @ lunger
                       @ '' scores.'',
                  p1Move = Some Lunge, p1Move \<noteq> Some Lunge)
               else
                 (applyMovement other d,
                  lunger @ '' lunges at medium range '' @ arrow @ '' miss! '' @ otherPlayer
                    @ '' '' @ moveStr other @ ''.'',
                  False, False))
            else
              (applyMovement other (max 1 (d - 1)),
               lunger @ '' lunges at long range '' @ arrow @ '' WHIFF! '' @ lunger
                 @ '' is exposed. '' @ otherPlayer @ '' gets free advance.'',
               False, False))
      else if (p1Move = Some Parry \<and> p2Move \<noteq> Some Lunge)
            \<or> (p2Move = Some Parry \<and> p1Move \<noteq> Some Lunge) then
        (let parryer = (if p1Move = Some Parry then ''P1'' else ''P2'');
             other = (if p1Move = Some Parry then p2Move else p1Move);
             otherPlayer = (if p1Move = Some Parry then ''P2'' else ''P1'')
         in (applyMovement other d,
             parryer @ '' parries nothing (wasted turn). '' @ otherPlayer @ '' ''
               @ moveStr other @ ''.'',
             False, False))
      else
        (let movements =
               (if p1Move = Some Advance then [''P1 advances''] else [])
               @ (if p2Move = Some Advance then [''P2 advances''] else [])
               @ (if p1Move = Some Retreat then [''P1 retreats''] else [])
               @ (if p2Move = Some Retreat then [''P2 retreats''] else []);
             result0 = (if movements \<noteq> [] then joinComma movements @ ''.''
                        else ''Both fencers stay in position.'');
             distanceChange =
               (if p1Move = Some Advance then - 1 else 0)
               + (if p1Move = Some Retreat then 1 else 0)
               + (if p2Move = Some Advance then - 1 else 0)
               + (if p2Move = Some Retreat then 1 else 0);
             newDistance = max 1 (min 6 (d + distanceChange))
         in if p1Move = Some Advance \<and> p2Move = Some Advance \<and> newDistance \<le> 1 then
              (1, ''Both fencers advance '' @ arrow @ '' CLASH! Distance stays at 1.'',
               False, False)
            else (newDistance, result0, False, False)))"

text \<open>
  The win check at the end of \<^verbatim>\<open>resolveTurn\<close>. \<^verbatim>\<open>game.turn >= game.maxTurns\<close> is false
  when \<^verbatim>\<open>maxTurns\<close> is \<^verbatim>\<open>undefined\<close>.
\<close>

definition reachedMaxTurns :: "game \<Rightarrow> bool" where
  "reachedMaxTurns g = (case maxTurns g of None \<Rightarrow> False | Some m \<Rightarrow> turn g \<ge> m)"

definition checkWin :: "game \<Rightarrow> game" where
  "checkWin g =
     (if scores_p1 g \<ge> 3 \<and> scores_p2 g \<ge> 3 then
        g\<lparr>winner := Some SuddenDeath, phase := Over\<rparr>
      else if scores_p1 g \<ge> 3 then g\<lparr>winner := Some WinP1, phase := Over\<rparr>
      else if scores_p2 g \<ge> 3 then g\<lparr>winner := Some WinP2, phase := Over\<rparr>
      else if reachedMaxTurns g then
        g\<lparr>winner := Some (if scores_p1 g > scores_p2 g then WinP1
                           else if scores_p2 g > scores_p1 g then WinP2
                           else SuddenDeath),
          phase := Over\<rparr>
      else g)"

text \<open>
  \<^verbatim>\<open>resolveTurn(game)\<close>: the updated game object and the returned narrative.
\<close>

definition resolveTurn :: "game \<Rightarrow> real \<Rightarrow> game \<times> string" where
  "resolveTurn g rnd =
     (case resolveMoves (moves_p1 g) (moves_p2 g) (distance g) rnd of
        (newDistance, result, scoreP1, scoreP2) \<Rightarrow>
          (let reset = ((scoreP1 \<or> scoreP2) \<and> \<not> (scoreP1 \<and> scoreP2));
               newDistance' = (if reset then 4 else newDistance);
               result' = (if reset then result @ '' Distance resets to 4.'' else result);
               g' = g\<lparr> scores_p1 := (if scoreP1 then scores_p1 g + 1 else scores_p1 g),
                        scores_p2 := (if scoreP2 then scores_p2 g + 1 else scores_p2 g),
                        distance := newDistance',
                        turn := turn g + 1,
                        lastResult := result',
                        moves_p1 := None,
                        moves_p2 := None \<rparr>
           in (checkWin g', result')))"

subsection \<open>Views of a game (\<^verbatim>\<open>getGameState\<close>, \<^verbatim>\<open>compactState\<close>)\<close>

text \<open>
  Decimal printing of a JavaScript integer inside a template string. \<open>digitChar\<close> is only
  applied below 10.
\<close>

definition digitChar :: "nat \<Rightarrow> char" where
  "digitChar n = ''0123456789'' ! n"

fun showNat :: "nat \<Rightarrow> string" where
  "showNat n = (if n < 10 then [digitChar n] else showNat (n div 10) @ [digitChar (n mod 10)])"

declare showNat.simps [simp del]

definition showInt :: "int \<Rightarrow> string" where
  "showInt i = (if i < 0 then ''-'' @ showNat (nat (- i)) else showNat (nat i))"

record gameState =
  gs_turn :: int
  gs_distance :: int
  gs_score :: int
  gs_oppScore :: int
  gs_lastResult :: string
  gs_validMoves :: "move list"
  gs_phase :: phase
  gs_winner :: "winner option"
  gs_maxTurns :: "int option"

definition getGameState :: "game \<Rightarrow> playerId \<Rightarrow> gameState" where
  "getGameState g pid =
     \<lparr> gs_turn = turn g, gs_distance = distance g,
       gs_score = (if pid = P1 then scores_p1 g else scores_p2 g),
       gs_oppScore = (if pid = P1 then scores_p2 g else scores_p1 g),
       gs_lastResult = lastResult g,
       gs_validMoves = [Advance, Retreat, Lunge, Parry],
       gs_phase = phase g, gs_winner = winner g, gs_maxTurns = maxTurns g \<rparr>"

text \<open>\<^verbatim>\<open>lines.join('\n')\<close>\<close>

fun joinLines :: "string list \<Rightarrow> string" where
  "joinLines [] = []"
| "joinLines [x] = x"
| "joinLines (x # y # ys) = x @ [CHR 0x0A] @ joinLines (y # ys)"

definition compactState :: "game \<Rightarrow> playerId \<Rightarrow> string" where
  "compactState g pid =
     (let s = getGameState g pid;
          header = ''SHELLSWORD | Touch '' @ showInt (gs_score s) @ ''-''
                     @ showInt (gs_oppScore s) @ '' | Dist:'' @ showInt (gs_distance s)
                     @ '' | Turn '' @ showInt (gs_turn s) @ ''/''
                     @ (case gs_maxTurns s of None \<Rightarrow> ''undefined'' | Some m \<Rightarrow> showInt m);
          lastLine = (if gs_lastResult s \<noteq> [] then [''last: '' @ gs_lastResult s] else []);
          validLine = [''valid: advance/retreat/lunge/parry''];
          endLine =
            (if gs_phase s = Over then
               [''GAME OVER: '' @
                 (if gs_winner s = Some WinP1 \<and> pid = P1 then ''You WIN!''
                  else if gs_winner s = Some WinP2 \<and> pid = P2 then ''You WIN!''
                  else if gs_winner s = Some SuddenDeath then ''SUDDEN DEATH required!''
                  else ''You lose.'')]
             else [])
      in joinLines ([header] @ lastLine @ validLine @ endLine))"

subsection \<open>Bot AI (\<^verbatim>\<open>botMove\<close>)\<close>

text \<open>
  \<open>r1\<close> and \<open>r2\<close> are the first and the second value of \<^verbatim>\<open>Math.random()\<close> the call reads
  (the second only where the source's conditional expression reaches it). For \<^verbatim>\<open>'easy'\<close>,
  \<^verbatim>\<open>moves[Math.floor(r1 * 4)]\<close> is written as a cascade over \<open>r1 \<in> [0,1)\<close>.
\<close>

definition botMove :: "gameState \<Rightarrow> string \<Rightarrow> real \<Rightarrow> real \<Rightarrow> move" where
  "botMove s difficulty r1 r2 =
     (if difficulty = ''easy'' then
        (if r1 * 4 < 1 then Advance else if r1 * 4 < 2 then Retreat
         else if r1 * 4 < 3 then Lunge else Parry)
      else if difficulty = ''medium'' then
        (if gs_distance s = 1 then (if r1 < 0.7 then Lunge else Parry)
         else if gs_distance s = 2 then
           (if r1 < 0.4 then Lunge else if r2 < 0.5 then Advance else Parry)
         else (if r1 < 0.6 then Advance else Retreat))
      else if difficulty = ''hard'' then
        (if gs_distance s = 1 then (if r1 < 0.8 then Lunge else Parry)
         else if gs_distance s = 2 then
           (if gs_score s < gs_oppScore s then (if r1 < 0.6 then Lunge else Advance)
            else (if r1 < 0.3 then Lunge else if r2 < 0.4 then Advance else Parry))
         else (if r1 < 0.75 then Advance else Retreat))
      else Advance)"

subsection \<open>Server state\<close>

text \<open>An entry of the \<^verbatim>\<open>players\<close> map; the exhibition handler stores no name.\<close>

record playerInfo =
  pi_gameId :: string
  pi_playerId :: playerId
  pi_name :: "string option"

text \<open>
  The origin of a join request, \<^verbatim>\<open>req.headers['x-forwarded-for'] || req.socket.remoteAddress\<close>:
  a string or \<^verbatim>\<open>undefined\<close>; a queue entry restored from the database holds \<^verbatim>\<open>null\<close>
  where none was stored. The three are pairwise different under \<^verbatim>\<open>!==\<close>.
\<close>

datatype origin = Undefined | Null | Ip string

record queueEntry =
  q_token :: string
  q_name :: string
  q_ip :: origin
  q_timestamp :: int

record completedGame =
  c_id :: string
  c_winner :: "winner option"
  c_turns :: int
  c_p1Name :: string
  c_p2Name :: string
  c_finalScore :: string
  c_timestamp :: int

text \<open>A row of table \<^verbatim>\<open>games\<close>; \<open>row_state\<close> is the object stored in \<^verbatim>\<open>state_json\<close>.\<close>

record gameRow =
  row_id :: string
  row_p1_name :: string
  row_p2_name :: string
  row_state :: game
  row_turn :: int
  row_phase :: phase
  row_winner :: "winner option"
  row_created_at :: int
  row_updated_at :: int

text \<open>
  The pending callbacks of \<^verbatim>\<open>setTimeout\<close>: the turn timeout of \<^verbatim>\<open>startTurnTimer\<close>, the bot
  follow-up of \<^verbatim>\<open>resolveIfReady\<close>, and \<^verbatim>\<open>playExhibitionTurn\<close>. Each closure is
  represented by the id of the game it was created for; the game object it captured is
  taken to be the one registered under that id.
\<close>

datatype callback = TurnTimeout string | BotFollowUp string | ExhibitionTurn string

text \<open>
  The module-level state. \<open>games\<close> is the \<^verbatim>\<open>Map\<close> in insertion order (a \<^verbatim>\<open>set\<close> on a
  present key keeps its place: \<open>AList.update\<close>); \<open>timers\<close> are the callbacks not yet run
  or cleared, by handle; \<open>dbGames\<close> and \<open>dbQueue\<close> are the two database tables.
\<close>

record server =
  games :: "(string \<times> game) list"
  players :: "string \<rightharpoonup> playerInfo"
  queue :: "queueEntry list"
  completedGames :: "completedGame list"
  gameIdCounter :: nat
  timers :: "nat \<rightharpoonup> callback"
  nextTimer :: nat
  dbGames :: "gameRow list"
  dbQueue :: "queueEntry list"

definition TURN_TIMEOUT_MS :: int where
  "TURN_TIMEOUT_MS = 300000"

definition QUEUE_TIMEOUT_MS :: int where
  "QUEUE_TIMEOUT_MS = 300000"

text \<open>The state of a process that has just started on the database tables given.\<close>

definition freshServer :: "gameRow list \<Rightarrow> queueEntry list \<Rightarrow> server" where
  "freshServer rows qrows =
     \<lparr> games = [], players = Map.empty, queue = [], completedGames = [],
       gameIdCounter = 1, timers = Map.empty, nextTimer = 0,
       dbGames = rows, dbQueue = qrows \<rparr>"

definition getGame :: "server \<Rightarrow> string \<Rightarrow> game option" where
  "getGame st gid = map_of (games st) gid"

definition setGame :: "server \<Rightarrow> string \<Rightarrow> game \<Rightarrow> server" where
  "setGame st gid g = st\<lparr>games := AList.update gid g (games st)\<rparr>"

text \<open>\<^verbatim>\<open>setTimeout(cb, ms)\<close>: the new handle and the state with the callback pending.\<close>

definition setTimeout :: "server \<Rightarrow> callback \<Rightarrow> nat \<times> server" where
  "setTimeout st cb =
     (nextTimer st, st\<lparr>timers := (timers st)(nextTimer st \<mapsto> cb), nextTimer := nextTimer st + 1\<rparr>)"

definition clearTimeout :: "server \<Rightarrow> nat \<Rightarrow> server" where
  "clearTimeout st h = st\<lparr>timers := (timers st)(h := None)\<rparr>"

text \<open>\<^verbatim>\<open>x || dflt\<close> on a string: the empty string is falsy.\<close>

definition orElse :: "string \<Rightarrow> string \<Rightarrow> string" where
  "orElse x dflt = (if x = [] then dflt else x)"

text \<open>Truthiness of an optional string property.\<close>

definition truthy :: "string option \<Rightarrow> bool" where
  "truthy x = (case x of None \<Rightarrow> False | Some s \<Rightarrow> s \<noteq> [])"

subsection \<open>Persistence (\<^verbatim>\<open>saveGameToDB\<close>, \<^verbatim>\<open>saveQueueToDB\<close>, \<^verbatim>\<open>removeFromQueueDB\<close>)\<close>

text \<open>
  \<^verbatim>\<open>UPDATE games SET state_json, turn, phase, winner, updated_at WHERE id\<close>, and the
  \<^verbatim>\<open>INSERT\<close> when no row was changed.
\<close>

text \<open>The properties written to \<^verbatim>\<open>state_json\<close>; every other field is left at a fixed value.\<close>

definition stateJson :: "game \<Rightarrow> game" where
  "stateJson g =
     (createGame [])\<lparr> distance := distance g, scores_p1 := scores_p1 g,
       scores_p2 := scores_p2 g, moves_p1 := moves_p1 g, moves_p2 := moves_p2 g,
       lastResult := lastResult g, maxTurns := maxTurns g,
       botDifficulty := botDifficulty g, botSide := botSide g, exhibition := exhibition g,
       botP1Difficulty := botP1Difficulty g, botP2Difficulty := botP2Difficulty g,
       p1Token := p1Token g, p2Token := p2Token g, p1 := p1 g, p2 := p2 g \<rparr>"

definition saveGameToDB :: "server \<Rightarrow> game \<Rightarrow> int \<Rightarrow> server" where
  "saveGameToDB st g now =
     (if game_id g \<in> set (map row_id (dbGames st)) then
        st\<lparr>dbGames :=
             map (\<lambda>r. if row_id r = game_id g
                       then r\<lparr>row_state := stateJson g, row_turn := turn g, row_phase := phase g,
                              row_winner := winner g, row_updated_at := now\<rparr>
                       else r) (dbGames st)\<rparr>
      else
        st\<lparr>dbGames := dbGames st @
             [\<lparr> row_id = game_id g, row_p1_name = orElse (p1Name g) ''P1'',
                row_p2_name = orElse (p2Name g) ''P2'', row_state = stateJson g,
                row_turn = turn g,
                row_phase = phase g, row_winner = winner g,
                row_created_at = now, row_updated_at = now \<rparr>]\<rparr>)"

definition saveQueueToDB :: "server \<Rightarrow> queueEntry \<Rightarrow> server" where
  "saveQueueToDB st e =
     st\<lparr>dbQueue := dbQueue st @ [e\<lparr>q_ip := (if q_ip e = Undefined \<or> q_ip e = Ip [] then Null else q_ip e)\<rparr>]\<rparr>"

definition removeFromQueueDB :: "server \<Rightarrow> string \<Rightarrow> server" where
  "removeFromQueueDB st tok = st\<lparr>dbQueue := filter (\<lambda>e. q_token e \<noteq> tok) (dbQueue st)\<rparr>"

subsection \<open>Timer, archive, resolution (\<^verbatim>\<open>startTurnTimer\<close>, \<^verbatim>\<open>archiveGame\<close>, \<^verbatim>\<open>resolveIfReady\<close>)\<close>

definition startTurnTimer :: "server \<Rightarrow> string \<Rightarrow> server" where
  "startTurnTimer st gid =
     (case getGame st gid of
        None \<Rightarrow> st
      | Some g \<Rightarrow>
          if phase g \<noteq> Input then st
          else (case setTimeout st (TurnTimeout gid) of
                  (h, st') \<Rightarrow> setGame st' gid (g\<lparr>turnTimer := Some h\<rparr>)))"

definition archiveGame :: "server \<Rightarrow> game \<Rightarrow> int \<Rightarrow> server" where
  "archiveGame st g now =
     (let cs = completedGames st @
                 [\<lparr> c_id = game_id g, c_winner = winner g, c_turns = turn g,
                    c_p1Name = orElse (p1Name g) ''P1'', c_p2Name = orElse (p2Name g) ''P2'',
                    c_finalScore = showInt (scores_p1 g) @ ''-'' @ showInt (scores_p2 g),
                    c_timestamp = now \<rparr>]
      in st\<lparr>completedGames := (if length cs > 100 then tl cs else cs)\<rparr>)"

text \<open>
  \<^verbatim>\<open>resolveIfReady(gameId)\<close>. The two early returns leave the state as it is. Otherwise:
  the turn timer is cleared, \<^verbatim>\<open>resolveTurn\<close> runs, the timer is rearmed or the game is
  archived, the game is saved, the waiters are released, and the bot follow-up is
  scheduled.
\<close>

definition resolveIfReady :: "server \<Rightarrow> string \<Rightarrow> real \<Rightarrow> int \<Rightarrow> server" where
  "resolveIfReady st gid rnd now =
     (case getGame st gid of
        None \<Rightarrow> st
      | Some game \<Rightarrow>
          if phase game \<noteq> Input then st
          else if moves_p1 game = None \<or> moves_p2 game = None then st
          else
            (let st1 = (case turnTimer game of None \<Rightarrow> st | Some h \<Rightarrow> clearTimeout st h);
                 game2 = fst (resolveTurn (game\<lparr>turnTimer := None\<rparr>) rnd);
                 st2 = (if phase game2 \<noteq> Over
                        then startTurnTimer (setGame st1 gid (game2\<lparr>phase := Input\<rparr>)) gid
                        else archiveGame (setGame st1 gid game2) game2 now)
             in case getGame st2 gid of
                  None \<Rightarrow> st2
                | Some game3 \<Rightarrow>
                    (let st3 = saveGameToDB st2 game3 now;
                         st4 = setGame st3 gid (game3\<lparr>moveWaiters := 0\<rparr>)
                     in if truthy (botDifficulty game3) \<and> phase game3 = Input
                        then snd (setTimeout st4 (BotFollowUp gid))
                        else st4)))"

subsection \<open>Pairing (\<^verbatim>\<open>matchPlayers\<close>) and the join handler\<close>

definition matchPlayers ::
  "server \<Rightarrow> string \<Rightarrow> string \<Rightarrow> string \<Rightarrow> string \<Rightarrow> int \<Rightarrow> string \<times> server" where
  "matchPlayers st token1 name1 token2 name2 now =
     (let gid = ''g'' @ showNat (gameIdCounter st);
          st1 = st\<lparr>gameIdCounter := gameIdCounter st + 1\<rparr>;
          g = (createGame gid)\<lparr> phase := Input, p1Token := Some token1,
                p2Token := Some token2, p1Name := name1, p2Name := name2,
                moveWaiters := 0 \<rparr>;
          st2 = setGame st1 gid g;
          st3 = st2\<lparr>players := (players st2)
                  (token1 \<mapsto> \<lparr>pi_gameId = gid, pi_playerId = P1, pi_name = Some name1\<rparr>,
                   token2 \<mapsto> \<lparr>pi_gameId = gid, pi_playerId = P2, pi_name = Some name2\<rparr>)\<rparr>;
          st4 = startTurnTimer st3 gid
      in (gid, saveGameToDB st4 g now))"

text \<open>\<^verbatim>\<open>Array.prototype.findIndex\<close>, with \<open>None\<close> for \<^verbatim>\<open>-1\<close>.\<close>

fun findIndex :: "('a \<Rightarrow> bool) \<Rightarrow> 'a list \<Rightarrow> nat option" where
  "findIndex P [] = None"
| "findIndex P (x # xs) =
     (if P x then Some 0 else map_option Suc (findIndex P xs))"

datatype joinResponse =
    JoinMatched string string playerId string "string option" "gameState option"
  | JoinWaiting string
  | JoinDeferred

text \<open>
  \<^verbatim>\<open>POST /api/join\<close>. \<open>nameOpt\<close> is \<^verbatim>\<open>req.body.name\<close>, \<open>ip\<close> the origin of the request,
  \<open>token\<close> the value of \<^verbatim>\<open>genToken()\<close>, \<open>wait\<close> the truthiness of \<^verbatim>\<open>req.body.wait\<close>.
  \<open>JoinMatched token gameId playerId opponent state stateJson\<close> is the \<^verbatim>\<open>'matched'\<close> reply,
  \<open>JoinWaiting token\<close> the \<^verbatim>\<open>'waiting'\<close> reply, \<open>JoinDeferred\<close> the long poll that answers
  later.
\<close>

definition isStale :: "int \<Rightarrow> queueEntry \<Rightarrow> bool" where
  "isStale now e = (now - q_timestamp e > QUEUE_TIMEOUT_MS)"

text \<open>\<^verbatim>\<open>(req.body && req.body.name) || 'Anonymous'\<close>\<close>

definition joinName :: "string option \<Rightarrow> string" where
  "joinName nameOpt =
     (case nameOpt of None \<Rightarrow> ''Anonymous'' | Some n \<Rightarrow> orElse n ''Anonymous'')"

text \<open>The predicate of the opponent search, \<^verbatim>\<open>q => q.name !== name || q.ip !== ip\<close>.\<close>

definition differs :: "string \<Rightarrow> origin \<Rightarrow> queueEntry \<Rightarrow> bool" where
  "differs name ip q = (q_name q \<noteq> name \<or> q_ip q \<noteq> ip)"

definition joinHandler ::
  "server \<Rightarrow> string option \<Rightarrow> origin \<Rightarrow> string \<Rightarrow> bool \<Rightarrow> int \<Rightarrow> joinResponse \<times> server" where
  "joinHandler st nameOpt ip token wait now =
     (let name = joinName nameOpt;
          stale = takeWhile (isStale now) (queue st);
          st1 = fold (\<lambda>e s. removeFromQueueDB s (q_token e)) stale
                  (st\<lparr>queue := dropWhile (isStale now) (queue st)\<rparr>)
      in case findIndex (differs name ip) (queue st1) of
           Some opponentIdx \<Rightarrow>
             (let opponent = queue st1 ! opponentIdx;
                  st2 = st1\<lparr>queue := take opponentIdx (queue st1)
                                       @ drop (Suc opponentIdx) (queue st1)\<rparr>;
                  st3 = removeFromQueueDB st2 (q_token opponent)
              in case matchPlayers st3 (q_token opponent) (q_name opponent) token name now of
                   (gid, st4) \<Rightarrow>
                     (JoinMatched token gid P2 (q_name opponent)
                        (map_option (\<lambda>g. compactState g P2) (getGame st4 gid))
                        (map_option (\<lambda>g. getGameState g P2) (getGame st4 gid)),
                      st4))
         | None \<Rightarrow>
             (let entry = \<lparr>q_token = token, q_name = name, q_ip = ip, q_timestamp = now\<rparr>;
                  st2 = saveQueueToDB (st1\<lparr>queue := queue st1 @ [entry]\<rparr>) entry
              in (if wait then JoinDeferred else JoinWaiting token, st2)))"

subsection \<open>The move handler (\<^verbatim>\<open>POST /api/move\<close>)\<close>

definition getMove :: "game \<Rightarrow> playerId \<Rightarrow> move option" where
  "getMove g pid = (case pid of P1 \<Rightarrow> moves_p1 g | P2 \<Rightarrow> moves_p2 g)"

definition setMove :: "game \<Rightarrow> playerId \<Rightarrow> move \<Rightarrow> game" where
  "setMove g pid m =
     (case pid of P1 \<Rightarrow> g\<lparr>moves_p1 := Some m\<rparr> | P2 \<Rightarrow> g\<lparr>moves_p2 := Some m\<rparr>)"

text \<open>\<^verbatim>\<open>game.botSide || 'p2'\<close>\<close>

definition botSideOf :: "game \<Rightarrow> playerId" where
  "botSideOf g = (case botSide g of None \<Rightarrow> P2 | Some s \<Rightarrow> s)"

text \<open>The difficulty handed to \<^verbatim>\<open>botMove\<close>, whose parameter defaults to \<^verbatim>\<open>'medium'\<close>.\<close>

definition difficultyOf :: "game \<Rightarrow> string" where
  "difficultyOf g = (case botDifficulty g of None \<Rightarrow> ''medium'' | Some d \<Rightarrow> d)"

text \<open>
  The replies of the handler: \<open>MoveError status message\<close> for the \<^verbatim>\<open>{error}\<close> replies;
  \<open>MoveGameOver winner turns state\<close> for the \<^verbatim>\<open>'game_over'\<close> reply of a finished game;
  \<open>MoveResolved over turn state stateJson winner\<close> for the reply after a resolution
  (\<open>over\<close>: status \<^verbatim>\<open>'game_over'\<close> rather than \<^verbatim>\<open>'resolved'\<close>); \<open>MoveDeferred\<close> for the long
  poll; \<open>MoveWaiting\<close> for \<^verbatim>\<open>'waiting_for_opponent'\<close>.
\<close>

datatype moveResponse =
    MoveError nat string
  | MoveGameOver "winner option" int string
  | MoveResolved bool int string gameState "winner option"
  | MoveDeferred
  | MoveWaiting

definition resolvedResponse :: "game \<Rightarrow> playerId \<Rightarrow> moveResponse" where
  "resolvedResponse g pid =
     MoveResolved (phase g = Over) (turn g) (compactState g pid) (getGameState g pid) (winner g)"

text \<open>
  \<open>tokenOpt\<close> and \<open>moveOpt\<close> are the two properties of the request body (\<open>None\<close> when
  absent; the empty string is falsy as well). \<open>r1\<close>, \<open>r2\<close> are the draws of the bot's
  move, \<open>rnd\<close> the draw of the resolution. The source's check \<^verbatim>\<open>game.phase !== 'input'\<close>
  after the \<^verbatim>\<open>'over'\<close> check has no case of its own: \<open>phase\<close> has the two values the
  program ever stores.
\<close>

definition moveHandler ::
  "server \<Rightarrow> string option \<Rightarrow> string option \<Rightarrow> bool \<Rightarrow> real \<Rightarrow> real \<Rightarrow> real \<Rightarrow> int
     \<Rightarrow> moveResponse \<times> server" where
  "moveHandler st tokenOpt moveOpt wait r1 r2 rnd now =
     (if \<not> truthy tokenOpt then (MoveError 400 ''token required'', st)
      else if \<not> truthy moveOpt then
        (MoveError 400 ''move required (advance/retreat/lunge/parry)'', st)
      else
        (case players st (case tokenOpt of None \<Rightarrow> [] | Some t \<Rightarrow> t) of
           None \<Rightarrow> (MoveError 404 ''Unknown token. Join first.'', st)
         | Some info \<Rightarrow>
             (case getGame st (pi_gameId info) of
                None \<Rightarrow> (MoveError 404 ''Game not found'', st)
              | Some game \<Rightarrow>
                  if phase game = Over then
                    (MoveGameOver (winner game) (turn game)
                       (compactState game (pi_playerId info)), st)
                  else if getMove game (pi_playerId info) \<noteq> None then
                    (MoveError 400 ''Already submitted move this turn'', st)
                  else
                    (case parseMove (case moveOpt of None \<Rightarrow> [] | Some m \<Rightarrow> m) of
                       None \<Rightarrow> (MoveError 400 ''move must be: advance/retreat/lunge/parry'', st)
                     | Some m \<Rightarrow>
                         (let game1 = setMove game (pi_playerId info) m;
                              game2 =
                                (if truthy (botDifficulty game1)
                                    \<and> getMove game1 (botSideOf game1) = None
                                 then setMove game1 (botSideOf game1)
                                        (botMove (getGameState game1 (botSideOf game1))
                                           (difficultyOf game1) r1 r2)
                                 else game1);
                              st1 = setGame st (pi_gameId info) game2
                          in if moves_p1 game2 \<noteq> None \<and> moves_p2 game2 \<noteq> None then
                               (let st2 = resolveIfReady st1 (pi_gameId info) rnd now
                                in (resolvedResponse
                                      (case getGame st2 (pi_gameId info) of
                                         None \<Rightarrow> game2 | Some g \<Rightarrow> g)
                                      (pi_playerId info), st2))
                             else if wait then
                               (MoveDeferred,
                                setGame st1 (pi_gameId info)
                                  (game2\<lparr>moveWaiters := moveWaiters game2 + 1\<rparr>))
                             else (MoveWaiting, st1))))))"

subsection \<open>The state handler (\<^verbatim>\<open>GET /api/state/:token\<close>)\<close>

datatype status = GameOverStatus | WaitingForOpponent | YourTurn

record stateReply =
  sr_status :: status
  sr_turn :: int
  sr_phase :: phase
  sr_state :: string
  sr_stateJson :: gameState
  sr_winner :: "winner option"
  sr_gameId :: string
  sr_playerId :: playerId
  sr_actionRequired :: bool

datatype stateResponse = StateError nat string | StateOk stateReply

definition stateHandler :: "server \<Rightarrow> string \<Rightarrow> stateResponse" where
  "stateHandler st token =
     (case players st token of
        None \<Rightarrow> StateError 404 ''Unknown token''
      | Some info \<Rightarrow>
          (case getGame st (pi_gameId info) of
             None \<Rightarrow> StateError 404 ''Game not found''
           | Some game \<Rightarrow>
               StateOk
                 \<lparr> sr_status =
                     (if phase game = Over then GameOverStatus
                      else if getMove game (pi_playerId info) \<noteq> None then WaitingForOpponent
                      else YourTurn),
                   sr_turn = turn game, sr_phase = phase game,
                   sr_state = compactState game (pi_playerId info),
                   sr_stateJson = getGameState game (pi_playerId info),
                   sr_winner = winner game, sr_gameId = pi_gameId info,
                   sr_playerId = pi_playerId info,
                   sr_actionRequired =
                     (phase game \<noteq> Over \<and> getMove game (pi_playerId info) = None) \<rparr>))"

subsection \<open>Practice and exhibition games\<close>

datatype startResponse =
    PracticeStarted string string
  | ExhibitionStarted string
  | AlreadyRunning string

text \<open>
  \<^verbatim>\<open>POST /api/practice\<close>: \<open>PracticeStarted token gameId\<close>. The destructuring defaults apply to an
  absent property only.
\<close>

definition practiceHandler ::
  "server \<Rightarrow> string option \<Rightarrow> string option \<Rightarrow> string \<Rightarrow> int \<Rightarrow> startResponse \<times> server" where
  "practiceHandler st difficultyOpt nameOpt token now =
     (let difficulty = (case difficultyOpt of None \<Rightarrow> ''medium'' | Some d \<Rightarrow> d);
          name = (case nameOpt of None \<Rightarrow> ''Player'' | Some n \<Rightarrow> n);
          gid = ''bot_'' @ showNat (gameIdCounter st);
          st1 = st\<lparr>gameIdCounter := gameIdCounter st + 1\<rparr>;
          g = (createGame gid)\<lparr> phase := Input, botDifficulty := Some difficulty,
                botSide := Some P2, p1Name := name,
                p2Name := ''Bot('' @ difficulty @ '')'', p1Token := Some token,
                moveWaiters := 0 \<rparr>;
          st2 = setGame st1 gid g;
          st3 = st2\<lparr>players := (players st2)
                  (token \<mapsto> \<lparr>pi_gameId = gid, pi_playerId = P1, pi_name = Some name\<rparr>)\<rparr>;
          st4 = startTurnTimer st3 gid
      in (PracticeStarted token gid, saveGameToDB st4 g now))"

text \<open>
  \<^verbatim>\<open>POST /api/exhibition\<close>: \<open>AlreadyRunning gameId\<close> for the first unfinished exhibition
  of \<^verbatim>\<open>games\<close>, else a new game under the pre-incremented counter; \<open>tok1\<close>, \<open>tok2\<close> are
  the two values of \<^verbatim>\<open>genToken()\<close>.
\<close>

definition exhibitionHandler ::
  "server \<Rightarrow> string option \<Rightarrow> string option \<Rightarrow> string \<Rightarrow> string \<Rightarrow> int \<Rightarrow> startResponse \<times> server"
  where
  "exhibitionHandler st d1Opt d2Opt tok1 tok2 now =
     (case find (\<lambda>(i, g). exhibition g \<and> phase g \<noteq> Over) (games st) of
        Some (i, g) \<Rightarrow> (AlreadyRunning i, st)
      | None \<Rightarrow>
          (let st1 = st\<lparr>gameIdCounter := gameIdCounter st + 1\<rparr>;
               gid = ''ex_'' @ showNat (gameIdCounter st1);
               d1 = (case d1Opt of None \<Rightarrow> ''hard'' | Some d \<Rightarrow> orElse d ''hard'');
               d2 = (case d2Opt of None \<Rightarrow> ''hard'' | Some d \<Rightarrow> orElse d ''hard'');
               g = \<lparr> game_id = gid, phase = Input, turn = 0, distance = 4,
                     scores_p1 = 0, scores_p2 = 0, moves_p1 = None, moves_p2 = None,
                     lastResult = [], winner = None,
                     p1Name = ''Bot('' @ d1 @ '')'', p2Name = ''Bot('' @ d2 @ '')'',
                     turnTimer = None, moveWaiters = 0, maxTurns = None,
                     botDifficulty = None, botSide = None, exhibition = True,
                     botP1Difficulty = Some d1, botP2Difficulty = Some d2,
                     p1Token = None, p2Token = None, p1 = Some tok1, p2 = Some tok2 \<rparr>;
               st2 = setGame st1 gid g;
               st3 = st2\<lparr>players := (players st2)
                       (tok1 \<mapsto> \<lparr>pi_gameId = gid, pi_playerId = P1, pi_name = None\<rparr>,
                        tok2 \<mapsto> \<lparr>pi_gameId = gid, pi_playerId = P2, pi_name = None\<rparr>)\<rparr>;
               st4 = saveGameToDB st3 g now
           in (ExhibitionStarted gid, snd (setTimeout st4 (ExhibitionTurn gid)))))"

subsection \<open>Callbacks of \<^verbatim>\<open>setTimeout\<close>\<close>

text \<open>
  Each function runs the callback behind handle \<open>h\<close> when it is still pending and of the
  kind named, and removes it from the pending ones; otherwise nothing happens (a cleared
  handle never runs).
\<close>

text \<open>The closure of \<^verbatim>\<open>startTurnTimer\<close>: \<^verbatim>\<open>'advance'\<close> for every empty slot, then \<^verbatim>\<open>resolveIfReady\<close>.\<close>

definition fireTurnTimeout :: "server \<Rightarrow> nat \<Rightarrow> real \<Rightarrow> int \<Rightarrow> server" where
  "fireTurnTimeout st h rnd now =
     (case timers st h of
        Some (TurnTimeout gid) \<Rightarrow>
          (let st0 = clearTimeout st h
           in case getGame st0 gid of
                None \<Rightarrow> st0
              | Some g \<Rightarrow>
                  resolveIfReady
                    (setGame st0 gid
                       (g\<lparr> moves_p1 := (if moves_p1 g = None then Some Advance else moves_p1 g),
                           moves_p2 := (if moves_p2 g = None then Some Advance else moves_p2 g) \<rparr>))
                    gid rnd now)
      | _ \<Rightarrow> st)"

text \<open>The bot follow-up scheduled by \<^verbatim>\<open>resolveIfReady\<close>.\<close>

definition fireBotFollowUp :: "server \<Rightarrow> nat \<Rightarrow> real \<Rightarrow> real \<Rightarrow> real \<Rightarrow> int \<Rightarrow> server" where
  "fireBotFollowUp st h r1 r2 rnd now =
     (case timers st h of
        Some (BotFollowUp gid) \<Rightarrow>
          (let st0 = clearTimeout st h
           in case getGame st0 gid of
                None \<Rightarrow> st0
              | Some g \<Rightarrow>
                  resolveIfReady
                    (setGame st0 gid
                       (setMove g (botSideOf g)
                          (botMove (getGameState g (botSideOf g)) (difficultyOf g) r1 r2)))
                    gid rnd now)
      | _ \<Rightarrow> st)"

text \<open>\<^verbatim>\<open>playExhibitionTurn\<close>; \<open>r1\<close>, \<open>r2\<close> are the draws of P1's bot, \<open>r3\<close>, \<open>r4\<close> of P2's.\<close>

definition fireExhibitionTurn ::
  "server \<Rightarrow> nat \<Rightarrow> real \<Rightarrow> real \<Rightarrow> real \<Rightarrow> real \<Rightarrow> real \<Rightarrow> int \<Rightarrow> server" where
  "fireExhibitionTurn st h r1 r2 r3 r4 rnd now =
     (case timers st h of
        Some (ExhibitionTurn gid) \<Rightarrow>
          (let st0 = clearTimeout st h
           in case getGame st0 gid of
                None \<Rightarrow> st0
              | Some g \<Rightarrow>
                  if phase g = Over then st0
                  else
                    (let m1 = botMove (getGameState g P1)
                                (case botP1Difficulty g of None \<Rightarrow> ''medium'' | Some d \<Rightarrow> d) r1 r2;
                         m2 = botMove (getGameState g P2)
                                (case botP2Difficulty g of None \<Rightarrow> ''medium'' | Some d \<Rightarrow> d) r3 r4;
                         st1 = resolveIfReady
                                 (setGame st0 gid (g\<lparr>moves_p1 := Some m1, moves_p2 := Some m2\<rparr>))
                                 gid rnd now
                     in case getGame st1 gid of
                          None \<Rightarrow> st1
                        | Some g' \<Rightarrow>
                            if phase g' \<noteq> Over then snd (setTimeout st1 (ExhibitionTurn gid))
                            else st1))
      | _ \<Rightarrow> st)"

subsection \<open>Startup (\<^verbatim>\<open>loadGameFromDB\<close>, \<^verbatim>\<open>loadDataFromDB\<close>)\<close>

text \<open>\<^verbatim>\<open>state.maxTurns || 30\<close>: an absent value and \<open>0\<close> both give \<open>30\<close>.\<close>

definition loadGameFromDB :: "gameRow \<Rightarrow> game" where
  "loadGameFromDB row =
     (let state = row_state row
      in (createGame (row_id row))\<lparr>
           p1Name := row_p1_name row, p2Name := row_p2_name row, turn := row_turn row,
           phase := row_phase row, winner := row_winner row, distance := distance state,
           scores_p1 := scores_p1 state, scores_p2 := scores_p2 state,
           moves_p1 := moves_p1 state, moves_p2 := moves_p2 state,
           lastResult := lastResult state,
           maxTurns := (case maxTurns state of None \<Rightarrow> Some 30
                        | Some m \<Rightarrow> if m = 0 then Some 30 else Some m),
           botDifficulty := botDifficulty state, botSide := botSide state,
           exhibition := exhibition state, botP1Difficulty := botP1Difficulty state,
           botP2Difficulty := botP2Difficulty state, p1Token := p1Token state,
           p2Token := p2Token state, p1 := p1 state, p2 := p2 state,
           moveWaiters := 0, turnTimer := None \<rparr>)"

text \<open>\<^verbatim>\<open>players.set(tok, info)\<close> when \<open>cond\<close> holds and the token is truthy.\<close>

definition bindToken :: "bool \<Rightarrow> string option \<Rightarrow> playerInfo \<Rightarrow> server \<Rightarrow> server" where
  "bindToken cond tok info st =
     (case tok of
        None \<Rightarrow> st
      | Some t \<Rightarrow> if cond \<and> t \<noteq> [] then st\<lparr>players := (players st)(t \<mapsto> info)\<rparr> else st)"

text \<open>The body of the loop over the active rows.\<close>

definition loadRow :: "gameRow \<Rightarrow> server \<Rightarrow> server" where
  "loadRow row st =
     (let g = loadGameFromDB row;
          gid = game_id g;
          st1 = setGame st gid g;
          st2 = bindToken True (p1Token g)
                  \<lparr>pi_gameId = gid, pi_playerId = P1, pi_name = Some (p1Name g)\<rparr> st1;
          st3 = bindToken True (p2Token g)
                  \<lparr>pi_gameId = gid, pi_playerId = P2, pi_name = Some (p2Name g)\<rparr> st2;
          st4 = bindToken (exhibition g) (p1 g)
                  \<lparr>pi_gameId = gid, pi_playerId = P1, pi_name = None\<rparr> st3;
          st5 = bindToken (exhibition g) (p2 g)
                  \<lparr>pi_gameId = gid, pi_playerId = P2, pi_name = None\<rparr> st4
      in if phase g = Input then startTurnTimer st5 gid else st5)"

text \<open>The body of the loop over the queue rows.\<close>

definition loadQueueRow :: "int \<Rightarrow> queueEntry \<Rightarrow> server \<Rightarrow> server" where
  "loadQueueRow now row st =
     (if now - q_timestamp row < QUEUE_TIMEOUT_MS then st\<lparr>queue := queue st @ [row]\<rparr>
      else removeFromQueueDB st (q_token row))"

definition completedOfRow :: "gameRow \<Rightarrow> completedGame" where
  "completedOfRow row =
     \<lparr> c_id = row_id row, c_winner = row_winner row, c_turns = row_turn row,
       c_p1Name = row_p1_name row, c_p2Name = row_p2_name row,
       c_finalScore = showInt (scores_p1 (row_state row)) @ ''-''
                        @ showInt (scores_p2 (row_state row)),
       c_timestamp = row_updated_at row \<rparr>"

text \<open>
  \<^verbatim>\<open>id.match(/^g(\d+)$/)\<close> and \<^verbatim>\<open>parseInt(match[1])\<close>, with \<open>0\<close> where the id does not match.
\<close>

definition isDigit :: "char \<Rightarrow> bool" where
  "isDigit c = (48 \<le> (of_char c :: nat) \<and> (of_char c :: nat) \<le> 57)"

definition parseDigits :: "string \<Rightarrow> nat" where
  "parseDigits ds = foldl (\<lambda>a c. 10 * a + (of_char c - 48)) 0 ds"

definition gameNumber :: "string \<Rightarrow> nat" where
  "gameNumber s =
     (case s of
        [] \<Rightarrow> 0
      | c # ds \<Rightarrow> if c = CHR ''g'' \<and> ds \<noteq> [] \<and> list_all isDigit ds then parseDigits ds else 0)"

text \<open>\<^verbatim>\<open>Math.max(...xs, 0)\<close>\<close>

definition maxOf :: "nat list \<Rightarrow> nat" where
  "maxOf xs = foldr max xs 0"

text \<open>
  The three queries: \<^verbatim>\<open>loadActiveGamesStmt\<close>, \<^verbatim>\<open>loadQueueStmt\<close>, \<^verbatim>\<open>getCompletedGamesStmt\<close>.
  Rows with equal sort keys come in table order.
\<close>

definition loadActiveGames :: "gameRow list \<Rightarrow> gameRow list" where
  "loadActiveGames rows = sort_key row_created_at (filter (\<lambda>r. row_phase r \<noteq> Over) rows)"

definition loadQueue :: "queueEntry list \<Rightarrow> queueEntry list" where
  "loadQueue qrows = sort_key q_timestamp qrows"

definition getCompletedGames :: "gameRow list \<Rightarrow> gameRow list" where
  "getCompletedGames rows =
     take 100 (rev (sort_key row_updated_at (filter (\<lambda>r. row_phase r = Over) rows)))"

definition loadDataFromDB :: "server \<Rightarrow> int \<Rightarrow> server" where
  "loadDataFromDB st now =
     (let st1 = fold loadRow (loadActiveGames (dbGames st)) st;
          st2 = fold (loadQueueRow now) (loadQueue (dbQueue st1)) st1;
          completed = getCompletedGames (dbGames st2);
          st3 = st2\<lparr>completedGames := completedGames st2 @ map completedOfRow completed\<rparr>;
          maxGameId = maxOf (map (\<lambda>(i, g). gameNumber i) (games st3)
                             @ map (\<lambda>row. gameNumber (row_id row)) completed)
      in st3\<lparr>gameIdCounter := maxGameId + 1\<rparr>)"

text \<open>A restart: the memory of the process is lost, the database tables stay.\<close>

definition restart :: "server \<Rightarrow> int \<Rightarrow> server" where
  "restart st now = loadDataFromDB (freshServer (dbGames st) (dbQueue st)) now"

subsection \<open>Derived notions\<close>

text \<open>
  The game object that a resolving call of \<^verbatim>\<open>resolveIfReady\<close> leaves in the registry:
  the result of \<^verbatim>\<open>resolveTurn\<close> with the timer handle of the rearmed timer (the next
  handle of \<open>st\<close>) unless the game is over, and no waiters.
\<close>

definition resolved :: "server \<Rightarrow> game \<Rightarrow> real \<Rightarrow> game" where
  "resolved st g rnd =
     (let g2 = fst (resolveTurn (g\<lparr>turnTimer := None\<rparr>) rnd)
      in g2\<lparr>turnTimer := (if phase g2 = Over then None else Some (nextTimer st)),
            moveWaiters := 0\<rparr>)"

text \<open>The turn count of the game registered under an id.\<close>

definition turnOf :: "server \<Rightarrow> string \<Rightarrow> int option" where
  "turnOf st gid = map_option turn (getGame st gid)"

subsection \<open>Example states\<close>

text \<open>
  A game of \<^verbatim>\<open>createGame\<close> in mid-play: the two committed moves, the distance, the two
  scores and the turn count.
\<close>

definition gameAt :: "move option \<Rightarrow> move option \<Rightarrow> int \<Rightarrow> int \<Rightarrow> int \<Rightarrow> int \<Rightarrow> game" where
  "gameAt m1 m2 d s1 s2 t =
     (createGame ''g1'')\<lparr> moves_p1 := m1, moves_p2 := m2, distance := d,
       scores_p1 := s1, scores_p2 := s2, turn := t \<rparr>"

text \<open>
  A player joins an empty server and waits in the queue (\<open>pvpQueued\<close>). \<open>pvpStarted\<close> is
  the pairing of two tokens on an empty server by \<^verbatim>\<open>matchPlayers\<close>: game \<^verbatim>\<open>g1\<close>, whose
  turn timer has handle 0.
\<close>

definition pvpQueued :: server where
  "pvpQueued =
     snd (joinHandler (freshServer [] []) (Some ''Ann'') (Ip ''10.0.0.1'') ''tokA'' False 1000)"

definition pvpStarted :: server where
  "pvpStarted = snd (matchPlayers (freshServer [] []) ''tokA'' ''Ann'' ''tokB'' ''Bob'' 1100)"

definition pvpGame :: game where
  "pvpGame =
     (createGame ''g1'')\<lparr> phase := Input, p1Token := Some ''tokA'', p2Token := Some ''tokB'',
       p1Name := ''Ann'', p2Name := ''Bob'', moveWaiters := 0, turnTimer := Some 0 \<rparr>"

text \<open>
  A run of the server from an empty database. A practice game is started (its id is
  \<^verbatim>\<open>bot_1\<close>) and the process restarts while the game is in progress. The human then plays
  advance, lunge three times over, and after each resolved turn but the last the bot
  follow-up runs 200 ms later (its handles are 2, 4, 6, 8, 10). Every draw of
  \<^verbatim>\<open>Math.random()\<close> is 0, so the medium bot advances at distance 4 and lunges at distance
  2, and the human's lunge at distance 2 hits: the game ends 3-0. Then a second practice
  game is started.
\<close>

definition practiceStarted :: server where
  "practiceStarted = snd (practiceHandler (freshServer [] []) None None ''tokA'' 1000)"

definition submit :: "server \<Rightarrow> string \<Rightarrow> string \<Rightarrow> int \<Rightarrow> server" where
  "submit st tok mv now = snd (moveHandler st (Some tok) (Some mv) False 0 0 0 now)"

definition practiceRestarted :: server where
  "practiceRestarted = restart practiceStarted 1500"

definition botReply :: "server \<Rightarrow> nat \<Rightarrow> int \<Rightarrow> server" where
  "botReply st h now = fireBotFollowUp st h 0 0 0 now"

definition practiceOver :: server where
  "practiceOver =
     submit
       (foldl (\<lambda>st (mv, h, t). botReply (submit st ''tokA'' mv t) h (t + 200))
          practiceRestarted
          [(''advance'', 2, 2000), (''lunge'', 4, 3000), (''advance'', 6, 4000),
           (''lunge'', 8, 5000), (''advance'', 10, 6000)])
       ''tokA'' ''lunge'' 7000"

text \<open>The finished game of that run, as it stands in the registry.\<close>

definition practiceOverGame :: game where
  "practiceOverGame =
     (createGame ''bot_1'')\<lparr> phase := Over, turn := 6, scores_p1 := 3,
       lastResult := ''P1 lunges at medium range '' @ arrow
                       @ '' CLOSE HIT! P1 scores. Distance resets to 4.'',
       winner := Some WinP1, p1Name := ''Player'', p2Name := ''Bot(medium)'',
       botDifficulty := Some ''medium'', botSide := Some P2, p1Token := Some ''tokA'' \<rparr>"

definition practiceAgain :: "startResponse \<times> server" where
  "practiceAgain = practiceHandler practiceOver None None ''tokB'' 8000"

section \<open>Properties of the turn resolution\<close>

lemma resolveMoves_range:
  assumes "1 \<le> d" "d \<le> 6"
  shows "1 \<le> fst (resolveMoves a b d rnd) \<and> fst (resolveMoves a b d rnd) \<le> 6"
  using assms by (simp add: resolveMoves_def applyMovement_def Let_def)

lemma checkWin_distance: "distance (checkWin g) = distance g"
  by (simp add: checkWin_def)

lemma checkWin_scores:
  "scores_p1 (checkWin g) = scores_p1 g" "scores_p2 (checkWin g) = scores_p2 g"
  by (simp_all add: checkWin_def)

lemma checkWin_turn: "turn (checkWin g) = turn g" "maxTurns (checkWin g) = maxTurns g"
  by (simp_all add: checkWin_def)

lemma resolveTurn_distance:
  "distance (fst (resolveTurn g rnd)) =
     (case resolveMoves (moves_p1 g) (moves_p2 g) (distance g) rnd of
        (nd, r, s1, s2) \<Rightarrow> if (s1 \<or> s2) \<and> \<not> (s1 \<and> s2) then 4 else nd)"
  by (simp add: resolveTurn_def Let_def checkWin_distance split: prod.splits)

lemma resolveTurn_scores:
  "scores_p1 (fst (resolveTurn g rnd)) =
     (case resolveMoves (moves_p1 g) (moves_p2 g) (distance g) rnd of
        (nd, r, s1, s2) \<Rightarrow> if s1 then scores_p1 g + 1 else scores_p1 g)"
  "scores_p2 (fst (resolveTurn g rnd)) =
     (case resolveMoves (moves_p1 g) (moves_p2 g) (distance g) rnd of
        (nd, r, s1, s2) \<Rightarrow> if s2 then scores_p2 g + 1 else scores_p2 g)"
  by (simp_all add: resolveTurn_def Let_def checkWin_scores split: prod.splits)

lemma resolveTurn_lastResult:
  "lastResult (fst (resolveTurn g rnd)) =
     (case resolveMoves (moves_p1 g) (moves_p2 g) (distance g) rnd of
        (nd, r, s1, s2) \<Rightarrow>
          if (s1 \<or> s2) \<and> \<not> (s1 \<and> s2) then r @ '' Distance resets to 4.'' else r)"
  by (simp add: resolveTurn_def Let_def checkWin_def split: prod.splits)

lemma resolveTurn_turn: "turn (fst (resolveTurn g rnd)) = turn g + 1"
  by (simp add: resolveTurn_def Let_def checkWin_turn split: prod.splits)

lemma resolveTurn_moves:
  "moves_p1 (fst (resolveTurn g rnd)) = None" "moves_p2 (fst (resolveTurn g rnd)) = None"
  by (simp_all add: resolveTurn_def Let_def checkWin_def split: prod.splits)

lemma resolveTurn_checkWin:
  assumes "resolveMoves (moves_p1 g) (moves_p2 g) (distance g) rnd = (nd, r, s1, s2)"
  shows "fst (resolveTurn g rnd) =
     checkWin (g\<lparr> scores_p1 := (if s1 then scores_p1 g + 1 else scores_p1 g),
                  scores_p2 := (if s2 then scores_p2 g + 1 else scores_p2 g),
                  distance := (if (s1 \<or> s2) \<and> \<not> (s1 \<and> s2) then 4 else nd),
                  turn := turn g + 1,
                  lastResult := (if (s1 \<or> s2) \<and> \<not> (s1 \<and> s2)
                                 then r @ '' Distance resets to 4.'' else r),
                  moves_p1 := None, moves_p2 := None \<rparr>)"
  by (simp add: resolveTurn_def assms Let_def)

lemmas gameAt_eval =
  gameAt_def createGame_def resolveTurn_def resolveMoves_def checkWin_def
  reachedMaxTurns_def applyMovement_def Let_def

lemma whiff_p1:
  assumes "3 \<le> d" "other \<noteq> Some Lunge" "other \<noteq> Some Parry"
  shows "resolveMoves (Some Lunge) other d rnd =
     (applyMovement other (max 1 (d - 1)),
      ''P1 lunges at long range '' @ arrow @ '' WHIFF! P1 is exposed. P2 gets free advance.'',
      False, False)"
  using assms by (simp add: resolveMoves_def Let_def)

lemma whiff_p2:
  assumes "3 \<le> d" "other \<noteq> Some Lunge" "other \<noteq> Some Parry"
  shows "resolveMoves other (Some Lunge) d rnd =
     (applyMovement other (max 1 (d - 1)),
      ''P2 lunges at long range '' @ arrow @ '' WHIFF! P2 is exposed. P1 gets free advance.'',
      False, False)"
  using assms by (simp add: resolveMoves_def Let_def)

lemma both_lunge:
  assumes "2 \<le> d"
  shows "resolveMoves (Some Lunge) (Some Lunge) d rnd =
     (if d = 2 then
        (if rnd < 0.5
         then (2, ''P1 lunges at medium range '' @ arrow @ '' CLOSE HIT! P1 scores.'',
               True, False)
         else (2, ''P1 lunges at medium range '' @ arrow @ '' miss! P2 lunge.'', False, False))
      else (d - 1,
            ''P1 lunges at long range '' @ arrow
              @ '' WHIFF! P1 is exposed. P2 gets free advance.'',
            False, False))"
  using assms by (simp add: resolveMoves_def Let_def applyMovement_def)

lemma checkWin_outcome:
  "(3 \<le> scores_p1 g0 \<and> 3 \<le> scores_p2 g0 \<longrightarrow>
      winner (checkWin g0) = Some SuddenDeath \<and> phase (checkWin g0) = Over)
   \<and> (3 \<le> scores_p1 g0 \<and> scores_p2 g0 < 3 \<longrightarrow>
        winner (checkWin g0) = Some WinP1 \<and> phase (checkWin g0) = Over)
   \<and> (scores_p1 g0 < 3 \<and> 3 \<le> scores_p2 g0 \<longrightarrow>
        winner (checkWin g0) = Some WinP2 \<and> phase (checkWin g0) = Over)
   \<and> (scores_p1 g0 < 3 \<and> scores_p2 g0 < 3 \<and> maxTurns g0 = Some m \<and> m \<le> turn g0 \<longrightarrow>
        phase (checkWin g0) = Over \<and>
        winner (checkWin g0) =
          Some (if scores_p1 g0 > scores_p2 g0 then WinP1
                else if scores_p2 g0 > scores_p1 g0 then WinP2 else SuddenDeath))
   \<and> (scores_p1 g0 < 3 \<and> scores_p2 g0 < 3 \<and> (\<forall>m. maxTurns g0 = Some m \<longrightarrow> turn g0 < m) \<longrightarrow>
        phase (checkWin g0) = phase g0 \<and> winner (checkWin g0) = winner g0)"
  by (simp add: checkWin_def reachedMaxTurns_def split: option.splits)

text \<open>
  Claim C1. For every pair of legal moves and every distance from 1 to 6,
  \<^verbatim>\<open>resolveTurn\<close> returns (the function has no failing branch: the source neither throws
  nor reads a property of a missing object on such a game), and the distance it writes
  back into the game lies between 1 and 6.
\<close>

theorem resolveTurn_distance_in_range:
  assumes "moves_p1 g = Some a" and "moves_p2 g = Some b"
    and "1 \<le> distance g" and "distance g \<le> 6"
  shows "\<exists>g' r. resolveTurn g rnd = (g', r) \<and> 1 \<le> distance g' \<and> distance g' \<le> 6"
proof -
  obtain nd r s1 s2
    where rm: "resolveMoves (moves_p1 g) (moves_p2 g) (distance g) rnd = (nd, r, s1, s2)"
    by (metis prod_cases4)
  from resolveMoves_range[OF assms(3,4), of "moves_p1 g" "moves_p2 g" rnd] rm
  have "1 \<le> nd \<and> nd \<le> 6" by simp
  then have "1 \<le> distance (fst (resolveTurn g rnd)) \<and> distance (fst (resolveTurn g rnd)) \<le> 6"
    by (simp add: resolveTurn_distance rm)
  then show ?thesis by (metis prod.collapse)
qed

theorem resolveTurn_distance_in_range_witness:
  "\<exists>g' r. resolveTurn (gameAt (Some Advance) (Some Retreat) 6 0 0 0) 0 = (g', r)
          \<and> 1 \<le> distance g' \<and> distance g' \<le> 6"
proof -
  have h: "moves_p1 (gameAt (Some Advance) (Some Retreat) 6 0 0 0) = Some Advance"
    "moves_p2 (gameAt (Some Advance) (Some Retreat) 6 0 0 0) = Some Retreat"
    "1 \<le> distance (gameAt (Some Advance) (Some Retreat) 6 0 0 0)"
    "distance (gameAt (Some Advance) (Some Retreat) 6 0 0 0) \<le> 6"
    by (simp_all add: gameAt_def createGame_def)
  show ?thesis by (rule resolveTurn_distance_in_range[OF h])
qed

text \<open>
  Claim C2. The game \<open>g'\<close> that \<^verbatim>\<open>resolveTurn\<close> leaves has had the win conditions applied
  in this order, on the scores and the turn count of \<open>g'\<close> itself: both scores at least
  3 give winner \<^verbatim>\<open>sudden_death\<close>; otherwise a single score of at least 3 gives that side
  the win; otherwise a turn count that has reached \<^verbatim>\<open>maxTurns\<close> gives the win to the
  higher score and \<^verbatim>\<open>sudden_death\<close> on a tie; each of these sets the phase to \<^verbatim>\<open>over\<close>.
  Where none applies, phase and winner are as before. The same step has advanced the
  turn count by one and emptied both move slots, so no state exists in which the turn
  is resolved and the win check has not run.
\<close>

theorem resolveTurn_win_conditions:
  fixes g :: game and rnd :: real
  defines "g' \<equiv> fst (resolveTurn g rnd)"
  shows "(3 \<le> scores_p1 g' \<and> 3 \<le> scores_p2 g' \<longrightarrow>
            winner g' = Some SuddenDeath \<and> phase g' = Over)
       \<and> (3 \<le> scores_p1 g' \<and> scores_p2 g' < 3 \<longrightarrow> winner g' = Some WinP1 \<and> phase g' = Over)
       \<and> (scores_p1 g' < 3 \<and> 3 \<le> scores_p2 g' \<longrightarrow> winner g' = Some WinP2 \<and> phase g' = Over)
       \<and> (scores_p1 g' < 3 \<and> scores_p2 g' < 3 \<and> maxTurns g = Some m \<and> m \<le> turn g' \<longrightarrow>
            phase g' = Over \<and>
            winner g' = Some (if scores_p1 g' > scores_p2 g' then WinP1
                              else if scores_p2 g' > scores_p1 g' then WinP2
                              else SuddenDeath))
       \<and> (scores_p1 g' < 3 \<and> scores_p2 g' < 3 \<and> (\<forall>m. maxTurns g = Some m \<longrightarrow> turn g' < m) \<longrightarrow>
            phase g' = phase g \<and> winner g' = winner g)
       \<and> turn g' = turn g + 1 \<and> moves_p1 g' = None \<and> moves_p2 g' = None"
proof -
  obtain nd r s1 s2
    where rm: "resolveMoves (moves_p1 g) (moves_p2 g) (distance g) rnd = (nd, r, s1, s2)"
    by (metis prod_cases4)
  define g0 where
    "g0 = g\<lparr> scores_p1 := (if s1 then scores_p1 g + 1 else scores_p1 g),
              scores_p2 := (if s2 then scores_p2 g + 1 else scores_p2 g),
              distance := (if (s1 \<or> s2) \<and> \<not> (s1 \<and> s2) then 4 else nd),
              turn := turn g + 1,
              lastResult := (if (s1 \<or> s2) \<and> \<not> (s1 \<and> s2)
                             then r @ '' Distance resets to 4.'' else r),
              moves_p1 := None, moves_p2 := None \<rparr>"
  have g0: "g' = checkWin g0" "phase g0 = phase g" "winner g0 = winner g"
    "maxTurns g0 = maxTurns g" "turn g0 = turn g + 1"
    unfolding g'_def g0_def by (simp_all add: resolveTurn_checkWin[OF rm])
  have t: "turn g' = turn g + 1" "moves_p1 g' = None" "moves_p2 g' = None"
    unfolding g'_def by (simp_all add: resolveTurn_turn resolveTurn_moves)
  have s: "scores_p1 g' = scores_p1 g0" "scores_p2 g' = scores_p2 g0" "turn g' = turn g0"
    using g0 by (simp_all add: checkWin_scores checkWin_turn)
  from checkWin_outcome[of g0 m] show ?thesis
    unfolding t(2,3) s unfolding g0(1)[symmetric] g0(2,3,4) s(3)[symmetric] t(1)
    by simp
qed

theorem resolveTurn_win_conditions_witness:
  "winner (fst (resolveTurn (gameAt (Some Lunge) (Some Lunge) 1 2 2 7) 0)) = Some SuddenDeath
   \<and> phase (fst (resolveTurn (gameAt (Some Lunge) (Some Lunge) 1 2 2 7) 0)) = Over
   \<and> winner (fst (resolveTurn (gameAt (Some Lunge) (Some Advance) 1 2 1 7) 0)) = Some WinP1
   \<and> winner (fst (resolveTurn (gameAt (Some Lunge) (Some Parry) 1 2 2 7) 0)) = Some WinP2
   \<and> winner (fst (resolveTurn (gameAt (Some Advance) (Some Advance) 4 1 0 29) 0)) = Some WinP1
   \<and> winner (fst (resolveTurn (gameAt (Some Advance) (Some Advance) 4 1 1 29) 0))
       = Some SuddenDeath
   \<and> phase (fst (resolveTurn (gameAt (Some Advance) (Some Advance) 4 1 1 29) 0)) = Over
   \<and> phase (fst (resolveTurn (gameAt (Some Advance) (Some Advance) 4 1 1 7) 0)) = Input
   \<and> winner (fst (resolveTurn (gameAt (Some Advance) (Some Advance) 4 1 1 7) 0)) = None"
proof -
  have a: "3 \<le> scores_p1 (fst (resolveTurn (gameAt (Some Lunge) (Some Lunge) 1 2 2 7) 0))
         \<and> 3 \<le> scores_p2 (fst (resolveTurn (gameAt (Some Lunge) (Some Lunge) 1 2 2 7) 0))"
    by (simp add: gameAt_eval)
  have b: "3 \<le> scores_p1 (fst (resolveTurn (gameAt (Some Lunge) (Some Advance) 1 2 1 7) 0))
         \<and> scores_p2 (fst (resolveTurn (gameAt (Some Lunge) (Some Advance) 1 2 1 7) 0)) < 3"
    by (simp add: gameAt_eval)
  have c: "scores_p1 (fst (resolveTurn (gameAt (Some Lunge) (Some Parry) 1 2 2 7) 0)) < 3
         \<and> 3 \<le> scores_p2 (fst (resolveTurn (gameAt (Some Lunge) (Some Parry) 1 2 2 7) 0))"
    by (simp add: gameAt_eval)
  have d: "scores_p1 (fst (resolveTurn (gameAt (Some Advance) (Some Advance) 4 1 0 29) 0)) = 1
         \<and> scores_p2 (fst (resolveTurn (gameAt (Some Advance) (Some Advance) 4 1 0 29) 0)) = 0
         \<and> maxTurns (gameAt (Some Advance) (Some Advance) 4 1 0 29) = Some 30
         \<and> 30 \<le> turn (fst (resolveTurn (gameAt (Some Advance) (Some Advance) 4 1 0 29) 0))"
    by (simp add: gameAt_eval)
  have e: "scores_p1 (fst (resolveTurn (gameAt (Some Advance) (Some Advance) 4 1 1 29) 0)) = 1
         \<and> scores_p2 (fst (resolveTurn (gameAt (Some Advance) (Some Advance) 4 1 1 29) 0)) = 1
         \<and> maxTurns (gameAt (Some Advance) (Some Advance) 4 1 1 29) = Some 30
         \<and> 30 \<le> turn (fst (resolveTurn (gameAt (Some Advance) (Some Advance) 4 1 1 29) 0))"
    by (simp add: gameAt_eval)
  have f: "scores_p1 (fst (resolveTurn (gameAt (Some Advance) (Some Advance) 4 1 1 7) 0)) < 3
         \<and> scores_p2 (fst (resolveTurn (gameAt (Some Advance) (Some Advance) 4 1 1 7) 0)) < 3
         \<and> (\<forall>m. maxTurns (gameAt (Some Advance) (Some Advance) 4 1 1 7) = Some m \<longrightarrow>
                turn (fst (resolveTurn (gameAt (Some Advance) (Some Advance) 4 1 1 7) 0)) < m)
         \<and> phase (gameAt (Some Advance) (Some Advance) 4 1 1 7) = Input
         \<and> winner (gameAt (Some Advance) (Some Advance) 4 1 1 7) = None"
    by (simp add: gameAt_eval)
  show ?thesis
    using a b c d e f
      resolveTurn_win_conditions[of "gameAt (Some Lunge) (Some Lunge) 1 2 2 7" 0 30]
      resolveTurn_win_conditions[of "gameAt (Some Lunge) (Some Advance) 1 2 1 7" 0 30]
      resolveTurn_win_conditions[of "gameAt (Some Lunge) (Some Parry) 1 2 2 7" 0 30]
      resolveTurn_win_conditions[of "gameAt (Some Advance) (Some Advance) 4 1 0 29" 0 30]
      resolveTurn_win_conditions[of "gameAt (Some Advance) (Some Advance) 4 1 1 29" 0 30]
      resolveTurn_win_conditions[of "gameAt (Some Advance) (Some Advance) 4 1 1 7" 0 30]
    by simp
qed

text \<open>
  Claim C3. Whenever exactly one of the two scores changes in a resolution, the distance
  written back is 4, whatever the rule cascade computed. When both lunge at distance 1,
  both scores go up by one and the distance stays 1.
\<close>

theorem resolveTurn_single_score_resets_distance:
  fixes g :: game and rnd :: real
  defines "g' \<equiv> fst (resolveTurn g rnd)"
  shows "((scores_p1 g' \<noteq> scores_p1 g) \<noteq> (scores_p2 g' \<noteq> scores_p2 g) \<longrightarrow> distance g' = 4)
       \<and> (moves_p1 g = Some Lunge \<and> moves_p2 g = Some Lunge \<and> distance g = 1 \<longrightarrow>
            scores_p1 g' = scores_p1 g + 1 \<and> scores_p2 g' = scores_p2 g + 1
            \<and> distance g' = 1)"
proof -
  obtain nd r s1 s2
    where rm: "resolveMoves (moves_p1 g) (moves_p2 g) (distance g) rnd = (nd, r, s1, s2)"
    by (metis prod_cases4)
  have a: "(scores_p1 g' \<noteq> scores_p1 g) \<noteq> (scores_p2 g' \<noteq> scores_p2 g) \<longrightarrow> distance g' = 4"
    unfolding g'_def by (simp add: resolveTurn_distance resolveTurn_scores rm)
  have dh: "resolveMoves (Some Lunge) (Some Lunge) 1 rnd =
      (1, ''Both fencers lunge simultaneously at close range '' @ arrow @ '' DOUBLE HIT!'',
       True, True)"
    by (simp add: resolveMoves_def)
  have b: "moves_p1 g = Some Lunge \<and> moves_p2 g = Some Lunge \<and> distance g = 1 \<longrightarrow>
            scores_p1 g' = scores_p1 g + 1 \<and> scores_p2 g' = scores_p2 g + 1 \<and> distance g' = 1"
    unfolding g'_def by (simp add: resolveTurn_distance resolveTurn_scores dh)
  from a b show ?thesis by blast
qed

theorem resolveTurn_single_score_resets_distance_witness:
  "distance (fst (resolveTurn (gameAt (Some Lunge) (Some Advance) 1 0 0 3) 0)) = 4
   \<and> distance (fst (resolveTurn (gameAt (Some Parry) (Some Lunge) 6 0 0 3) 0)) = 4
   \<and> scores_p1 (fst (resolveTurn (gameAt (Some Lunge) (Some Lunge) 1 1 2 3) 0)) = 2
   \<and> scores_p2 (fst (resolveTurn (gameAt (Some Lunge) (Some Lunge) 1 1 2 3) 0)) = 3
   \<and> distance (fst (resolveTurn (gameAt (Some Lunge) (Some Lunge) 1 1 2 3) 0)) = 1"
proof -
  have a: "(scores_p1 (fst (resolveTurn (gameAt (Some Lunge) (Some Advance) 1 0 0 3) 0))
              \<noteq> scores_p1 (gameAt (Some Lunge) (Some Advance) 1 0 0 3))
         \<noteq> (scores_p2 (fst (resolveTurn (gameAt (Some Lunge) (Some Advance) 1 0 0 3) 0))
              \<noteq> scores_p2 (gameAt (Some Lunge) (Some Advance) 1 0 0 3))"
    by (simp add: gameAt_eval)
  have b: "(scores_p1 (fst (resolveTurn (gameAt (Some Parry) (Some Lunge) 6 0 0 3) 0))
              \<noteq> scores_p1 (gameAt (Some Parry) (Some Lunge) 6 0 0 3))
         \<noteq> (scores_p2 (fst (resolveTurn (gameAt (Some Parry) (Some Lunge) 6 0 0 3) 0))
              \<noteq> scores_p2 (gameAt (Some Parry) (Some Lunge) 6 0 0 3))"
    by (simp add: gameAt_eval)
  have c: "moves_p1 (gameAt (Some Lunge) (Some Lunge) 1 1 2 3) = Some Lunge
         \<and> moves_p2 (gameAt (Some Lunge) (Some Lunge) 1 1 2 3) = Some Lunge
         \<and> distance (gameAt (Some Lunge) (Some Lunge) 1 1 2 3) = 1
         \<and> scores_p1 (gameAt (Some Lunge) (Some Lunge) 1 1 2 3) = 1
         \<and> scores_p2 (gameAt (Some Lunge) (Some Lunge) 1 1 2 3) = 2"
    by (simp add: gameAt_def createGame_def)
  show ?thesis
    using a b c
      resolveTurn_single_score_resets_distance[of "gameAt (Some Lunge) (Some Advance) 1 0 0 3" 0]
      resolveTurn_single_score_resets_distance[of "gameAt (Some Parry) (Some Lunge) 6 0 0 3" 0]
      resolveTurn_single_score_resets_distance[of "gameAt (Some Lunge) (Some Lunge) 1 1 2 3" 0]
    by simp
qed

text \<open>
  Claim C7. When one side lunges at a distance of 3 or more and the other side's move
  is neither a lunge nor a parry, nobody scores, and the distance first drops by one
  (not below 1) and then takes the other side's own step: one less for an advance (not
  below 1), one more for a retreat (not above 6). At distance 3 against a retreat the two
  cancel and the distance stays 3.
\<close>

theorem resolveTurn_whiff:
  fixes g :: game and rnd :: real
  defines "g' \<equiv> fst (resolveTurn g rnd)"
  assumes "3 \<le> distance g"
    and "(moves_p1 g = Some Lunge \<and> moves_p2 g = other)
         \<or> (moves_p1 g = other \<and> moves_p2 g = Some Lunge)"
    and "other \<noteq> Some Lunge" and "other \<noteq> Some Parry"
  shows "distance g' =
           (if other = Some Advance then max 1 (max 1 (distance g - 1) - 1)
            else if other = Some Retreat then min 6 (max 1 (distance g - 1) + 1)
            else max 1 (distance g - 1))
         \<and> scores_p1 g' = scores_p1 g \<and> scores_p2 g' = scores_p2 g
         \<and> (distance g = 3 \<and> other = Some Retreat \<longrightarrow> distance g' = 3)"
proof -
  from assms(3) have "resolveMoves (moves_p1 g) (moves_p2 g) (distance g) rnd =
     (applyMovement other (max 1 (distance g - 1)),
      (if moves_p1 g = Some Lunge
       then ''P1 lunges at long range '' @ arrow
              @ '' WHIFF! P1 is exposed. P2 gets free advance.''
       else ''P2 lunges at long range '' @ arrow
              @ '' WHIFF! P2 is exposed. P1 gets free advance.''),
      False, False)"
    using whiff_p1[OF assms(2,4,5), of rnd] whiff_p2[OF assms(2,4,5), of rnd] assms(4)
    by auto
  then have d: "distance g' = applyMovement other (max 1 (distance g - 1))"
    and s: "scores_p1 g' = scores_p1 g" "scores_p2 g' = scores_p2 g"
    unfolding g'_def by (simp_all add: resolveTurn_distance resolveTurn_scores)
  have "distance g = 3 \<and> other = Some Retreat \<longrightarrow> distance g' = 3"
    by (simp add: d applyMovement_def)
  moreover have "distance g' =
           (if other = Some Advance then max 1 (max 1 (distance g - 1) - 1)
            else if other = Some Retreat then min 6 (max 1 (distance g - 1) + 1)
            else max 1 (distance g - 1))"
    by (simp add: d applyMovement_def)
  ultimately show ?thesis using s by blast
qed

theorem resolveTurn_whiff_witness:
  "distance (fst (resolveTurn (gameAt (Some Lunge) (Some Retreat) 3 1 2 5) 0)) = 3
   \<and> scores_p1 (fst (resolveTurn (gameAt (Some Lunge) (Some Retreat) 3 1 2 5) 0)) = 1
   \<and> scores_p2 (fst (resolveTurn (gameAt (Some Lunge) (Some Retreat) 3 1 2 5) 0)) = 2"
proof -
  have h: "3 \<le> distance (gameAt (Some Lunge) (Some Retreat) 3 1 2 5)"
    "(moves_p1 (gameAt (Some Lunge) (Some Retreat) 3 1 2 5) = Some Lunge
        \<and> moves_p2 (gameAt (Some Lunge) (Some Retreat) 3 1 2 5) = Some Retreat)
     \<or> (moves_p1 (gameAt (Some Lunge) (Some Retreat) 3 1 2 5) = Some Retreat
        \<and> moves_p2 (gameAt (Some Lunge) (Some Retreat) 3 1 2 5) = Some Lunge)"
    "Some Retreat \<noteq> Some Lunge" "Some Retreat \<noteq> Some Parry"
    by (simp_all add: gameAt_def createGame_def)
  have v: "distance (gameAt (Some Lunge) (Some Retreat) 3 1 2 5) = 3"
    "scores_p1 (gameAt (Some Lunge) (Some Retreat) 3 1 2 5) = 1"
    "scores_p2 (gameAt (Some Lunge) (Some Retreat) 3 1 2 5) = 2"
    by (simp_all add: gameAt_def createGame_def)
  show ?thesis
    using resolveTurn_whiff[OF h, of 0] by (simp add: v)
qed

text \<open>
  Claim C9. When both players lunge at a distance of 2 or more, the cascade takes
  player 1 for the lunger (the narrative opens with \<^verbatim>\<open>P1 lunges\<close>) and player 2's lunge
  for the other move: player 2's score never changes; player 1's score goes up exactly
  when the distance is 2 and the draw of \<^verbatim>\<open>Math.random()\<close> is below 0.5; and player 2's
  move adds nothing to the distance, which becomes 4 after that hit, stays 2 after the
  miss at distance 2, and is one less at distance 3 or more.
\<close>

theorem resolveTurn_both_lunge_far:
  fixes g :: game and rnd :: real
  defines "g' \<equiv> fst (resolveTurn g rnd)"
  assumes "moves_p1 g = Some Lunge" and "moves_p2 g = Some Lunge" and "2 \<le> distance g"
  shows "scores_p2 g' = scores_p2 g
       \<and> scores_p1 g' = (if distance g = 2 \<and> rnd < 0.5 then scores_p1 g + 1 else scores_p1 g)
       \<and> distance g' = (if distance g = 2 then (if rnd < 0.5 then 4 else 2)
                        else distance g - 1)
       \<and> take 9 (lastResult g') = ''P1 lunges''"
  unfolding g'_def
  by (simp add: resolveTurn_distance resolveTurn_scores resolveTurn_lastResult assms(2,3)
        both_lunge[OF assms(4)])

theorem resolveTurn_both_lunge_far_witness:
  "scores_p2 (fst (resolveTurn (gameAt (Some Lunge) (Some Lunge) 2 0 0 1) 0)) = 0
   \<and> scores_p1 (fst (resolveTurn (gameAt (Some Lunge) (Some Lunge) 2 0 0 1) 0)) = 1
   \<and> distance (fst (resolveTurn (gameAt (Some Lunge) (Some Lunge) 2 0 0 1) 0)) = 4
   \<and> take 9 (lastResult (fst (resolveTurn (gameAt (Some Lunge) (Some Lunge) 2 0 0 1) 0)))
       = ''P1 lunges''"
proof -
  have h: "moves_p1 (gameAt (Some Lunge) (Some Lunge) 2 0 0 1) = Some Lunge"
    "moves_p2 (gameAt (Some Lunge) (Some Lunge) 2 0 0 1) = Some Lunge"
    "2 \<le> distance (gameAt (Some Lunge) (Some Lunge) 2 0 0 1)"
    by (simp_all add: gameAt_def createGame_def)
  have v: "distance (gameAt (Some Lunge) (Some Lunge) 2 0 0 1) = 2"
    "scores_p1 (gameAt (Some Lunge) (Some Lunge) 2 0 0 1) = 0"
    "scores_p2 (gameAt (Some Lunge) (Some Lunge) 2 0 0 1) = 0"
    by (simp_all add: gameAt_def createGame_def)
  show ?thesis
    using resolveTurn_both_lunge_far[OF h, of 0] by (simp add: v)
qed

section \<open>Properties of the registries\<close>

lemma getGame_setGame:
  "getGame (setGame st gid g) gid' = (if gid' = gid then Some g else getGame st gid')"
  by (simp add: getGame_def setGame_def update_conv')

lemma setGame_frame:
  "players (setGame st gid g) = players st"
  "timers (setGame st gid g) = timers st"
  "nextTimer (setGame st gid g) = nextTimer st"
  "queue (setGame st gid g) = queue st"
  "gameIdCounter (setGame st gid g) = gameIdCounter st"
  by (simp_all add: setGame_def)

lemma clearTimeout_frame:
  "getGame (clearTimeout st h) gid = getGame st gid"
  "players (clearTimeout st h) = players st"
  "nextTimer (clearTimeout st h) = nextTimer st"
  "timers (clearTimeout st h) = (timers st)(h := None)"
  by (simp_all add: clearTimeout_def getGame_def)

lemma setTimeout_frame:
  "getGame (snd (setTimeout st cb)) gid = getGame st gid"
  "players (snd (setTimeout st cb)) = players st"
  "nextTimer (snd (setTimeout st cb)) = nextTimer st + 1"
  "timers (snd (setTimeout st cb)) = (timers st)(nextTimer st \<mapsto> cb)"
  "fst (setTimeout st cb) = nextTimer st"
  by (simp_all add: setTimeout_def getGame_def)

lemma saveGameToDB_frame:
  "getGame (saveGameToDB st g now) gid = getGame st gid"
  "players (saveGameToDB st g now) = players st"
  "nextTimer (saveGameToDB st g now) = nextTimer st"
  "timers (saveGameToDB st g now) = timers st"
  "queue (saveGameToDB st g now) = queue st"
  "gameIdCounter (saveGameToDB st g now) = gameIdCounter st"
  by (simp_all add: saveGameToDB_def getGame_def)

lemma archiveGame_frame:
  "getGame (archiveGame st g now) gid = getGame st gid"
  "players (archiveGame st g now) = players st"
  "nextTimer (archiveGame st g now) = nextTimer st"
  "timers (archiveGame st g now) = timers st"
  by (simp_all add: archiveGame_def getGame_def Let_def)

lemma startTurnTimer_players: "players (startTurnTimer st gid) = players st"
  by (simp add: startTurnTimer_def setTimeout_def setGame_frame split: option.splits)

lemma startTurnTimer_queue: "queue (startTurnTimer st gid) = queue st"
  by (simp add: startTurnTimer_def setTimeout_def setGame_frame split: option.splits)

lemma startTurnTimer_game:
  "getGame (startTurnTimer st gid) gid' =
     (case getGame st gid of
        None \<Rightarrow> getGame st gid'
      | Some g \<Rightarrow> if phase g = Input \<and> gid' = gid
                  then Some (g\<lparr>turnTimer := Some (nextTimer st)\<rparr>) else getGame st gid')"
  by (simp add: startTurnTimer_def setTimeout_def getGame_setGame split: option.splits)
     (simp add: getGame_def)

lemma startTurnTimer_timers:
  "h < nextTimer st \<Longrightarrow> timers (startTurnTimer st gid) h = timers st h"
  by (simp add: startTurnTimer_def setTimeout_def setGame_frame split: option.splits)

lemma startTurnTimer_nextTimer: "nextTimer st \<le> nextTimer (startTurnTimer st gid)"
  by (simp add: startTurnTimer_def setTimeout_def setGame_frame split: option.splits)

lemma phase_not_Over: "(p \<noteq> Over) = (p = Input)"
  by (cases p) simp_all

lemma phase_not_Input: "(p \<noteq> Input) = (p = Over)"
  by (cases p) simp_all

lemma checkWin_frame:
  "turnTimer (checkWin g) = turnTimer g" "botDifficulty (checkWin g) = botDifficulty g"
  "botSide (checkWin g) = botSide g" "moves_p1 (checkWin g) = moves_p1 g"
  "moves_p2 (checkWin g) = moves_p2 g" "game_id (checkWin g) = game_id g"
  by (simp_all add: checkWin_def)

lemma resolveTurn_frame:
  "turnTimer (fst (resolveTurn g rnd)) = turnTimer g"
  "botDifficulty (fst (resolveTurn g rnd)) = botDifficulty g"
  "botSide (fst (resolveTurn g rnd)) = botSide g"
  by (simp_all add: resolveTurn_def Let_def checkWin_frame split: prod.splits)

lemma resolveTurn_turnTimer_upd:
  "turn (fst (resolveTurn (g\<lparr>turnTimer := t\<rparr>) rnd)) = turn g + 1"
  by (simp add: resolveTurn_turn)

lemma resolveIfReady_not_ready:
  assumes "getGame st gid = Some g"
    and "phase g = Over \<or> moves_p1 g = None \<or> moves_p2 g = None"
  shows "resolveIfReady st gid rnd now = st"
  using assms by (auto simp add: resolveIfReady_def)

lemma resolveIfReady_missing:
  assumes "getGame st gid = None"
  shows "resolveIfReady st gid rnd now = st"
  using assms by (simp add: resolveIfReady_def)

lemma resolveIfReady_ready:
  assumes g: "getGame st gid = Some g"
    and r: "phase g = Input" "moves_p1 g \<noteq> None" "moves_p2 g \<noteq> None"
  shows "getGame (resolveIfReady st gid rnd now) gid = Some (resolved st g rnd)"
    and "players (resolveIfReady st gid rnd now) = players st"
    and "gid' \<noteq> gid \<Longrightarrow> getGame (resolveIfReady st gid rnd now) gid' = getGame st gid'"
    and "h < nextTimer st \<Longrightarrow>
           timers (resolveIfReady st gid rnd now) h =
             (if turnTimer g = Some h then None else timers st h)"
proof -
  define st1 where "st1 = (case turnTimer g of None \<Rightarrow> st | Some h \<Rightarrow> clearTimeout st h)"
  define g2 where "g2 = fst (resolveTurn (g\<lparr>turnTimer := None\<rparr>) rnd)"
  define st2 where
    "st2 = (if phase g2 \<noteq> Over
            then startTurnTimer (setGame st1 gid (g2\<lparr>phase := Input\<rparr>)) gid
            else archiveGame (setGame st1 gid g2) g2 now)"
  have st1: "getGame st1 x = getGame st x" "players st1 = players st"
    "nextTimer st1 = nextTimer st"
    "timers st1 = (case turnTimer g of None \<Rightarrow> timers st | Some h \<Rightarrow> (timers st)(h := None))"
    for x
    by (simp_all add: st1_def clearTimeout_frame split: option.splits)
  have g2t: "turnTimer g2 = None"
    by (simp add: g2_def resolveTurn_frame)
  have gm: "getGame st2 gid =
              Some (g2\<lparr>turnTimer := (if phase g2 = Over then None else Some (nextTimer st))\<rparr>)"
  proof (cases "phase g2")
    case Over
    have "g2\<lparr>turnTimer := None\<rparr> = g2" using g2t by simp
    with Over show ?thesis
      by (simp add: st2_def archiveGame_frame getGame_setGame)
  next
    case Input
    then have "g2\<lparr>phase := Input\<rparr> = g2" by simp
    with Input show ?thesis
      by (simp add: st2_def startTurnTimer_game getGame_setGame setGame_frame st1)
  qed
  have other: "getGame st2 x = getGame st x" if "x \<noteq> gid" for x
    using that
    by (simp add: st2_def startTurnTimer_game getGame_setGame archiveGame_frame st1
          split: option.splits)
  have pl: "players st2 = players st"
    by (simp add: st2_def startTurnTimer_players archiveGame_frame setGame_frame st1)
  have tm: "timers st2 h = (if turnTimer g = Some h then None else timers st h)"
    if "h < nextTimer st" for h
    using that
    by (simp add: st2_def startTurnTimer_timers archiveGame_frame setGame_frame st1
          split: option.splits)
  define gm3 where "gm3 = g2\<lparr>turnTimer := (if phase g2 = Over then None else Some (nextTimer st))\<rparr>"
  define st4 where "st4 = setGame (saveGameToDB st2 gm3 now) gid (gm3\<lparr>moveWaiters := 0\<rparr>)"
  have "resolveIfReady st gid rnd now =
      (case getGame st2 gid of
         None \<Rightarrow> st2
       | Some game3 \<Rightarrow>
           (let st3 = saveGameToDB st2 game3 now;
                st4 = setGame st3 gid (game3\<lparr>moveWaiters := 0\<rparr>)
            in if truthy (botDifficulty game3) \<and> phase game3 = Input
               then snd (setTimeout st4 (BotFollowUp gid))
               else st4))"
    unfolding st2_def g2_def st1_def resolveIfReady_def Let_def
    by (simp add: g r)
  then have unfold: "resolveIfReady st gid rnd now =
      (if truthy (botDifficulty gm3) \<and> phase gm3 = Input
       then snd (setTimeout st4 (BotFollowUp gid)) else st4)"
    by (simp add: gm gm3_def st4_def Let_def)
  have res: "gm3\<lparr>moveWaiters := 0\<rparr> = resolved st g rnd"
    by (simp add: resolved_def gm3_def g2_def Let_def)
  have n2: "nextTimer st \<le> nextTimer st2"
    using startTurnTimer_nextTimer[of "setGame st1 gid (g2\<lparr>phase := Input\<rparr>)" gid]
    by (simp add: st2_def archiveGame_frame setGame_frame st1)
  show "getGame (resolveIfReady st gid rnd now) gid = Some (resolved st g rnd)"
    by (simp add: unfold setTimeout_frame st4_def getGame_setGame res)
  show "players (resolveIfReady st gid rnd now) = players st"
    by (simp add: unfold setTimeout_frame st4_def setGame_frame saveGameToDB_frame pl)
  show "getGame (resolveIfReady st gid rnd now) gid' = getGame st gid'" if "gid' \<noteq> gid"
    using that
    by (simp add: unfold setTimeout_frame st4_def getGame_setGame saveGameToDB_frame other)
  show "timers (resolveIfReady st gid rnd now) h =
             (if turnTimer g = Some h then None else timers st h)" if "h < nextTimer st"
    using that n2 tm[OF that]
    by (simp add: unfold setTimeout_frame st4_def setGame_frame saveGameToDB_frame)
qed

lemma resolved_fields:
  "turn (resolved st g rnd) = turn g + 1"
  "moves_p1 (resolved st g rnd) = None"
  "moves_p2 (resolved st g rnd) = None"
  "botDifficulty (resolved st g rnd) = botDifficulty g"
  by (simp_all add: resolved_def Let_def resolveTurn_turn resolveTurn_moves resolveTurn_frame)

lemma resolveIfReady_players: "players (resolveIfReady st gid rnd now) = players st"
proof (cases "getGame st gid")
  case None
  then show ?thesis by (simp add: resolveIfReady_missing)
next
  case (Some g)
  show ?thesis
  proof (cases "phase g = Input \<and> moves_p1 g \<noteq> None \<and> moves_p2 g \<noteq> None")
    case True
    then show ?thesis using resolveIfReady_ready(2)[OF Some] by simp
  next
    case False
    then have "phase g = Over \<or> moves_p1 g = None \<or> moves_p2 g = None"
      by (cases "phase g") auto
    then show ?thesis by (simp add: resolveIfReady_not_ready[OF Some])
  qed
qed

lemma resolveIfReady_idem:
  "resolveIfReady (resolveIfReady st gid rnd now) gid rnd' now' = resolveIfReady st gid rnd now"
proof (cases "getGame st gid")
  case None
  then show ?thesis by (simp add: resolveIfReady_missing)
next
  case (Some g)
  show ?thesis
  proof (cases "phase g = Input \<and> moves_p1 g \<noteq> None \<and> moves_p2 g \<noteq> None")
    case True
    then have "getGame (resolveIfReady st gid rnd now) gid = Some (resolved st g rnd)"
      using resolveIfReady_ready(1)[OF Some] by simp
    then show ?thesis
      by (rule resolveIfReady_not_ready) (simp add: resolved_fields)
  next
    case False
    then have "phase g = Over \<or> moves_p1 g = None \<or> moves_p2 g = None"
      by (cases "phase g") auto
    then show ?thesis by (simp add: resolveIfReady_not_ready[OF Some])
  qed
qed

section \<open>Properties of the handlers\<close>

lemma truthy_Some: "truthy (Some s) = (s \<noteq> [])"
  by (simp add: truthy_def)

lemma truthy_None: "truthy None = False"
  by (simp add: truthy_def)

lemma moveHandler_falsy:
  assumes "\<not> truthy tokenOpt \<or> \<not> truthy moveOpt"
  shows "\<exists>m. moveHandler st tokenOpt moveOpt wait r1 r2 rnd now = (MoveError 400 m, st)"
  using assms by (auto simp add: moveHandler_def)

lemma moveHandler_known:
  assumes "tok \<noteq> []" "mv \<noteq> []"
  shows "moveHandler st (Some tok) (Some mv) wait r1 r2 rnd now =
     (case players st tok of
           None \<Rightarrow> (MoveError 404 ''Unknown token. Join first.'', st)
         | Some info \<Rightarrow>
             (case getGame st (pi_gameId info) of
                None \<Rightarrow> (MoveError 404 ''Game not found'', st)
              | Some game \<Rightarrow>
                  if phase game = Over then
                    (MoveGameOver (winner game) (turn game)
                       (compactState game (pi_playerId info)), st)
                  else if getMove game (pi_playerId info) \<noteq> None then
                    (MoveError 400 ''Already submitted move this turn'', st)
                  else
                    (case parseMove mv of
                       None \<Rightarrow> (MoveError 400 ''move must be: advance/retreat/lunge/parry'', st)
                     | Some m \<Rightarrow>
                         (let game1 = setMove game (pi_playerId info) m;
                              game2 =
                                (if truthy (botDifficulty game1)
                                    \<and> getMove game1 (botSideOf game1) = None
                                 then setMove game1 (botSideOf game1)
                                        (botMove (getGameState game1 (botSideOf game1))
                                           (difficultyOf game1) r1 r2)
                                 else game1);
                              st1 = setGame st (pi_gameId info) game2
                          in if moves_p1 game2 \<noteq> None \<and> moves_p2 game2 \<noteq> None then
                               (let st2 = resolveIfReady st1 (pi_gameId info) rnd now
                                in (resolvedResponse
                                      (case getGame st2 (pi_gameId info) of
                                         None \<Rightarrow> game2 | Some g \<Rightarrow> g)
                                      (pi_playerId info), st2))
                             else if wait then
                               (MoveDeferred,
                                setGame st1 (pi_gameId info)
                                  (game2\<lparr>moveWaiters := moveWaiters game2 + 1\<rparr>))
                             else (MoveWaiting, st1)))))"
  using assms
  by (simp add: moveHandler_def truthy_Some cong del: option.case_cong_weak if_weak_cong)

lemma moveHandler_accepted:
  assumes "tok \<noteq> []" "mv \<noteq> []" "players st tok = Some info"
    "getGame st (pi_gameId info) = Some game" "phase game = Input"
    "getMove game (pi_playerId info) = None" "parseMove mv = Some m"
  shows "\<exists>b t s j w. fst (moveHandler st (Some tok) (Some mv) wait r1 r2 rnd now)
           \<in> {MoveResolved b t s j w, MoveDeferred, MoveWaiting}"
  using assms(3-)
  by (simp add: moveHandler_known[OF assms(1,2)] Let_def resolvedResponse_def)

lemma parseMove_nonempty: "parseMove mv = Some m \<Longrightarrow> mv \<noteq> []"
  by (auto simp add: parseMove_def)

lemma setMove_frame:
  "phase (setMove g pid m) = phase g" "turn (setMove g pid m) = turn g"
  "turnTimer (setMove g pid m) = turnTimer g"
  "botDifficulty (setMove g pid m) = botDifficulty g"
  by (cases pid; simp add: setMove_def)+

lemma fireTurnTimeout_cleared:
  "timers st h = None \<Longrightarrow> fireTurnTimeout st h rnd now = st"
  by (simp add: fireTurnTimeout_def)

lemma fireTurnTimeout_pending:
  assumes "timers st h = Some (TurnTimeout gid)" "getGame st gid = Some g" "phase g = Input"
  shows "getGame (fireTurnTimeout st h rnd now) gid =
           Some (resolved st
                   (g\<lparr> moves_p1 := (if moves_p1 g = None then Some Advance else moves_p1 g),
                       moves_p2 := (if moves_p2 g = None then Some Advance else moves_p2 g) \<rparr>)
                   rnd)"
    and "players (fireTurnTimeout st h rnd now) = players st"
proof -
  define g' where
    "g' = g\<lparr> moves_p1 := (if moves_p1 g = None then Some Advance else moves_p1 g),
              moves_p2 := (if moves_p2 g = None then Some Advance else moves_p2 g) \<rparr>"
  define st0 where "st0 = setGame (clearTimeout st h) gid g'"
  have f: "fireTurnTimeout st h rnd now = resolveIfReady st0 gid rnd now"
    using assms(1,2) by (simp add: fireTurnTimeout_def Let_def clearTimeout_frame st0_def g'_def)
  have g0: "getGame st0 gid = Some g'"
    by (simp add: st0_def getGame_setGame)
  have r: "phase g' = Input" "moves_p1 g' \<noteq> None" "moves_p2 g' \<noteq> None"
    using assms(3) by (simp_all add: g'_def)
  have n: "resolved st0 x rnd = resolved st x rnd" for x
    by (simp add: resolved_def Let_def st0_def setGame_frame clearTimeout_frame)
  show "getGame (fireTurnTimeout st h rnd now) gid =
           Some (resolved st
                   (g\<lparr> moves_p1 := (if moves_p1 g = None then Some Advance else moves_p1 g),
                       moves_p2 := (if moves_p2 g = None then Some Advance else moves_p2 g) \<rparr>)
                   rnd)"
    using resolveIfReady_ready(1)[OF g0 r, of rnd now] by (simp add: f n g'_def)
  show "players (fireTurnTimeout st h rnd now) = players st"
    by (simp add: f resolveIfReady_players st0_def setGame_frame clearTimeout_frame)
qed

lemma race_submit_first:
  assumes tok: "tok \<noteq> []" and info: "players st tok = Some info"
    and g: "getGame st (pi_gameId info) = Some g" and ph: "phase g = Input"
    and mine: "getMove g (pi_playerId info) = None"
    and nobot: "\<not> truthy (botDifficulty g)"
    and tm: "turnTimer g = Some h" "timers st h = Some (TurnTimeout (pi_gameId info))"
      "h < nextTimer st"
    and mv: "parseMove mv = Some m"
  shows "turnOf (fireTurnTimeout (snd (moveHandler st (Some tok) (Some mv) wait r1 r2 rnd now))
                   h rnd' now') (pi_gameId info) = Some (turn g + 1)"
proof -
  define gid where "gid = pi_gameId info"
  define game1 where "game1 = setMove g (pi_playerId info) m"
  define st1 where "st1 = setGame st gid game1"
  have g1: "getGame st1 gid = Some game1" by (simp add: st1_def getGame_setGame)
  have p1: "phase game1 = Input" "turn game1 = turn g" "turnTimer game1 = Some h"
    using ph tm(1) by (simp_all add: game1_def setMove_frame)
  have nb: "\<not> truthy (botDifficulty game1)" using nobot by (simp add: game1_def setMove_frame)
  have mh: "snd (moveHandler st (Some tok) (Some mv) wait r1 r2 rnd now) =
      (if moves_p1 game1 \<noteq> None \<and> moves_p2 game1 \<noteq> None
       then resolveIfReady st1 gid rnd now
       else if wait then setGame st1 gid (game1\<lparr>moveWaiters := moveWaiters game1 + 1\<rparr>)
       else st1)"
    using info g ph mine mv nb
    by (simp add: moveHandler_known[OF tok parseMove_nonempty[OF mv]] Let_def
          gid_def[symmetric] game1_def[symmetric] st1_def[symmetric])
  show ?thesis
  proof (cases "moves_p1 game1 \<noteq> None \<and> moves_p2 game1 \<noteq> None")
    case True
    then have r: "moves_p1 game1 \<noteq> None" "moves_p2 game1 \<noteq> None" by simp_all
    have h1: "h < nextTimer st1" using tm(3) by (simp add: st1_def setGame_frame)
    have "timers (resolveIfReady st1 gid rnd now) h = None"
      using resolveIfReady_ready(4)[OF g1 p1(1) r h1, of rnd now] p1(3) by simp
    then have "fireTurnTimeout (resolveIfReady st1 gid rnd now) h rnd' now'
                 = resolveIfReady st1 gid rnd now"
      by (rule fireTurnTimeout_cleared)
    then show ?thesis
      using True resolveIfReady_ready(1)[OF g1 p1(1) r, of rnd now]
      by (simp add: mh turnOf_def gid_def[symmetric] resolved_fields p1)
  next
    case False
    define game1' where
      "game1' = (if wait then game1\<lparr>moveWaiters := moveWaiters game1 + 1\<rparr> else game1)"
    define st1' where
      "st1' = (if wait then setGame st1 gid (game1\<lparr>moveWaiters := moveWaiters game1 + 1\<rparr>)
               else st1)"
    have s: "snd (moveHandler st (Some tok) (Some mv) wait r1 r2 rnd now) = st1'"
      using False by (auto simp add: mh st1'_def)
    have a: "timers st1' h = Some (TurnTimeout gid)"
      using tm(2) by (simp add: st1'_def st1_def setGame_frame gid_def)
    have b: "getGame st1' gid = Some game1'"
      by (simp add: st1'_def game1'_def getGame_setGame g1)
    have c: "phase game1' = Input" "turn game1' = turn g"
      using p1 by (simp_all add: game1'_def)
    show ?thesis
      using fireTurnTimeout_pending(1)[OF a b c(1), of rnd' now']
      by (simp add: s turnOf_def gid_def[symmetric] resolved_fields c)
  qed
qed

lemma race_timer_first:
  assumes tok: "tok \<noteq> []" and info: "players st tok = Some info"
    and g: "getGame st (pi_gameId info) = Some g" and ph: "phase g = Input"
    and mine: "getMove g (pi_playerId info) = None"
    and nobot: "\<not> truthy (botDifficulty g)"
    and tm: "timers st h = Some (TurnTimeout (pi_gameId info))"
    and mv: "parseMove mv = Some m"
  shows "turnOf (snd (moveHandler (fireTurnTimeout st h rnd now) (Some tok) (Some mv)
                        wait r1 r2 rnd' now')) (pi_gameId info) = Some (turn g + 1)"
proof -
  define gid where "gid = pi_gameId info"
  define g' where
    "g' = g\<lparr> moves_p1 := (if moves_p1 g = None then Some Advance else moves_p1 g),
              moves_p2 := (if moves_p2 g = None then Some Advance else moves_p2 g) \<rparr>"
  define gr where "gr = resolved st g' rnd"
  define st' where "st' = fireTurnTimeout st h rnd now"
  have gr: "getGame st' gid = Some gr" and pl: "players st' tok = Some info"
    using fireTurnTimeout_pending[OF tm g ph, of rnd now] info
    by (simp_all add: st'_def gr_def g'_def gid_def)
  have f: "turn gr = turn g + 1" "moves_p1 gr = None" "moves_p2 gr = None"
    "\<not> truthy (botDifficulty gr)"
    using nobot by (simp_all add: gr_def resolved_fields g'_def)
  have nm: "getMove gr (pi_playerId info) = None"
    using f by (cases "pi_playerId info") (simp_all add: getMove_def)
  define game1 where "game1 = setMove gr (pi_playerId info) m"
  have notboth: "\<not> (moves_p1 game1 \<noteq> None \<and> moves_p2 game1 \<noteq> None)"
    using f by (cases "pi_playerId info") (simp_all add: game1_def setMove_def)
  have nb: "\<not> truthy (botDifficulty game1)" "turn game1 = turn g + 1"
    using f by (simp_all add: game1_def setMove_frame)
  show ?thesis
  proof (cases "phase gr")
    case Over
    then show ?thesis
      using gr pl f
      by (simp add: st'_def[symmetric] moveHandler_known[OF tok parseMove_nonempty[OF mv]]
            turnOf_def gid_def[symmetric])
  next
    case Input
    then show ?thesis
      using gr pl nm mv nb notboth
      by (auto simp add: st'_def[symmetric] moveHandler_known[OF tok parseMove_nonempty[OF mv]]
            turnOf_def gid_def[symmetric] Let_def game1_def[symmetric] getGame_setGame)
  qed
qed

lemma findIndex_Some:
  "findIndex P xs = Some i \<Longrightarrow> i < length xs \<and> P (xs ! i) \<and> (\<forall>j<i. \<not> P (xs ! j))"
proof (induction xs arbitrary: i)
  case Nil
  then show ?case by simp
next
  case (Cons x xs)
  show ?case
  proof (cases "P x")
    case True
    with Cons.prems show ?thesis by simp
  next
    case False
    with Cons.prems obtain k where k: "findIndex P xs = Some k" "i = Suc k"
      by auto
    from Cons.IH[OF k(1)] False k(2) show ?thesis
      by (auto simp add: nth_Cons split: nat.splits)
  qed
qed

lemma findIndex_None: "(findIndex P xs = None) = (\<forall>x\<in>set xs. \<not> P x)"
  by (induction xs) auto

lemma removeFromQueueDB_frame:
  "queue (removeFromQueueDB st t) = queue st"
  "players (removeFromQueueDB st t) = players st"
  "gameIdCounter (removeFromQueueDB st t) = gameIdCounter st"
  by (simp_all add: removeFromQueueDB_def)

lemma fold_removeFromQueueDB_frame:
  "queue (fold (\<lambda>e s. removeFromQueueDB s (q_token e)) es st) = queue st"
  "players (fold (\<lambda>e s. removeFromQueueDB s (q_token e)) es st) = players st"
  "gameIdCounter (fold (\<lambda>e s. removeFromQueueDB s (q_token e)) es st) = gameIdCounter st"
  by (induction es arbitrary: st) (simp_all add: removeFromQueueDB_frame)

lemma matchPlayers_result:
  "fst (matchPlayers st token1 name1 token2 name2 now) = ''g'' @ showNat (gameIdCounter st)"
  "queue (snd (matchPlayers st token1 name1 token2 name2 now)) = queue st"
  "players (snd (matchPlayers st token1 name1 token2 name2 now)) =
     (players st)
       (token1 \<mapsto> \<lparr>pi_gameId = ''g'' @ showNat (gameIdCounter st), pi_playerId = P1,
                    pi_name = Some name1\<rparr>,
        token2 \<mapsto> \<lparr>pi_gameId = ''g'' @ showNat (gameIdCounter st), pi_playerId = P2,
                    pi_name = Some name2\<rparr>)"
  by (simp_all add: matchPlayers_def Let_def saveGameToDB_frame startTurnTimer_queue
        startTurnTimer_players setGame_frame)

lemma joinHandler_unmatched:
  assumes "findIndex (differs (joinName nameOpt) ip) (dropWhile (isStale now) (queue st)) = None"
  shows "fst (joinHandler st nameOpt ip token wait now) =
           (if wait then JoinDeferred else JoinWaiting token)"
    and "queue (snd (joinHandler st nameOpt ip token wait now)) =
           dropWhile (isStale now) (queue st)
             @ [\<lparr>q_token = token, q_name = joinName nameOpt, q_ip = ip, q_timestamp = now\<rparr>]"
    and "players (snd (joinHandler st nameOpt ip token wait now)) = players st"
  using assms
  by (simp_all add: joinHandler_def Let_def fold_removeFromQueueDB_frame saveQueueToDB_def)

lemma joinHandler_matched:
  assumes "findIndex (differs (joinName nameOpt) ip) (dropWhile (isStale now) (queue st)) = Some i"
  defines "q' \<equiv> dropWhile (isStale now) (queue st)"
  defines "gid \<equiv> ''g'' @ showNat (gameIdCounter st)"
  shows "\<exists>s j. fst (joinHandler st nameOpt ip token wait now) =
           JoinMatched token gid P2 (q_name (q' ! i)) s j"
    and "queue (snd (joinHandler st nameOpt ip token wait now)) = take i q' @ drop (Suc i) q'"
    and "players (snd (joinHandler st nameOpt ip token wait now)) =
           (players st)
             (q_token (q' ! i) \<mapsto> \<lparr>pi_gameId = gid, pi_playerId = P1,
                                     pi_name = Some (q_name (q' ! i))\<rparr>,
              token \<mapsto> \<lparr>pi_gameId = gid, pi_playerId = P2,
                         pi_name = Some (joinName nameOpt)\<rparr>)"
  using assms(1)
  by (simp_all add: joinHandler_def Let_def fold_removeFromQueueDB_frame q'_def gid_def matchPlayers_result removeFromQueueDB_frame
        case_prod_beta)

section \<open>The example runs\<close>

lemmas server_eval =
  freshServer_def practiceHandler_def setGame_def getGame_def startTurnTimer_def setTimeout_def
  saveGameToDB_def stateJson_def createGame_def orElse_def truthy_def showNat.simps digitChar_def
  restart_def loadDataFromDB_def loadRow_def loadGameFromDB_def bindToken_def loadActiveGames_def
  loadQueue_def getCompletedGames_def maxOf_def gameNumber_def isDigit_def parseDigits_def
  loadQueueRow_def completedOfRow_def Let_def

lemmas move_eval =
  submit_def botReply_def moveHandler_def fireBotFollowUp_def fireTurnTimeout_def
  resolveIfReady_def clearTimeout_def archiveGame_def
  getMove_def setMove_def botSideOf_def difficultyOf_def botMove_def getGameState_def
  parseMove_def resolvedResponse_def showInt_def
  resolveTurn_def resolveMoves_def checkWin_def reachedMaxTurns_def applyMovement_def

lemmas join_eval =
  joinHandler_def joinName_def differs_def isStale_def QUEUE_TIMEOUT_MS_def matchPlayers_def
  saveQueueToDB_def removeFromQueueDB_def case_prod_beta

lemma pvpQueued_summary:
  "(let st = pvpQueued in (queue st, gameIdCounter st)) =
     ([\<lparr>q_token = ''tokA'', q_name = ''Ann'', q_ip = Ip ''10.0.0.1'', q_timestamp = 1000\<rparr>], 1)"
  by (simp add: pvpQueued_def server_eval join_eval)

lemma pvpStarted_summary:
  "(let st = pvpStarted
    in (getGame st ''g1'', players st ''tokA'', players st ''tokB'', players st ''nobody'',
        timers st 0, nextTimer st)) =
     (Some pvpGame,
      Some \<lparr>pi_gameId = ''g1'', pi_playerId = P1, pi_name = Some ''Ann''\<rparr>,
      Some \<lparr>pi_gameId = ''g1'', pi_playerId = P2, pi_name = Some ''Bob''\<rparr>,
      None, Some (TurnTimeout ''g1''), 1)"
  by (simp add: pvpStarted_def matchPlayers_def pvpGame_def server_eval)

lemma practiceStarted_summary:
  "(let st = practiceStarted
    in (map_option turn (getGame st ''bot_1''), timers st 0, gameIdCounter st)) =
     (Some 0, Some (TurnTimeout ''bot_1''), 2)"
  by (simp add: practiceStarted_def server_eval)

lemma practiceRestarted_summary:
  "(let st = practiceRestarted in (map fst (games st), gameIdCounter st)) = ([''bot_1''], 1)"
  by (simp add: practiceRestarted_def practiceStarted_def server_eval)

lemma practiceOver_summary:
  "(let st = practiceOver
    in (getGame st ''bot_1'', players st ''tokA'', gameIdCounter st, nextTimer st)) =
     (Some practiceOverGame,
      Some \<lparr>pi_gameId = ''bot_1'', pi_playerId = P1, pi_name = Some ''Player''\<rparr>, 1, 11)"
  by (simp add: practiceOver_def practiceRestarted_def practiceStarted_def practiceOverGame_def
        arrow_def server_eval move_eval)

lemma race_timer_then_submit_practice:
  "turnOf (submit (fireTurnTimeout practiceStarted 0 0 301000) ''tokA'' ''advance'' 301001) ''bot_1''
     = Some 2"
  by (simp add: turnOf_def practiceStarted_def server_eval move_eval)

lemma pvpStarted_facts:
  "getGame pvpStarted ''g1'' = Some pvpGame"
  "players pvpStarted ''tokA'' = Some \<lparr>pi_gameId = ''g1'', pi_playerId = P1, pi_name = Some ''Ann''\<rparr>"
  "players pvpStarted ''tokB'' = Some \<lparr>pi_gameId = ''g1'', pi_playerId = P2, pi_name = Some ''Bob''\<rparr>"
  "players pvpStarted ''nobody'' = None"
  "timers pvpStarted 0 = Some (TurnTimeout ''g1'')"
  "nextTimer pvpStarted = 1"
  using pvpStarted_summary by (simp_all add: Let_def)

lemma pvpQueued_facts:
  "queue pvpQueued =
     [\<lparr>q_token = ''tokA'', q_name = ''Ann'', q_ip = Ip ''10.0.0.1'', q_timestamp = 1000\<rparr>]"
  "gameIdCounter pvpQueued = 1"
  using pvpQueued_summary by (simp_all add: Let_def)

lemma practiceStarted_facts:
  "turnOf practiceStarted ''bot_1'' = Some 0"
  "timers practiceStarted 0 = Some (TurnTimeout ''bot_1'')"
  "gameIdCounter practiceStarted = 2"
  using practiceStarted_summary by (simp_all add: Let_def turnOf_def)

lemma practiceRestarted_facts:
  "map fst (games practiceRestarted) = [''bot_1'']"
  "gameIdCounter practiceRestarted = 1"
  using practiceRestarted_summary by (simp_all add: Let_def)

lemma practiceOver_facts:
  "getGame practiceOver ''bot_1'' = Some practiceOverGame"
  "players practiceOver ''tokA'' =
     Some \<lparr>pi_gameId = ''bot_1'', pi_playerId = P1, pi_name = Some ''Player''\<rparr>"
  "gameIdCounter practiceOver = 1"
  using practiceOver_summary by (simp_all add: Let_def)

lemma getGame_upd:
  "getGame (st\<lparr>players := p\<rparr>) gid = getGame st gid"
  "getGame (st\<lparr>gameIdCounter := c\<rparr>) gid = getGame st gid"
  by (simp_all add: getGame_def)

lemma practiceHandler_result:
  fixes st :: server
  defines "gid \<equiv> ''bot_'' @ showNat (gameIdCounter st)"
  shows "fst (practiceHandler st difficultyOpt nameOpt token now) = PracticeStarted token gid"
    and "players (snd (practiceHandler st difficultyOpt nameOpt token now)) token =
           Some \<lparr>pi_gameId = gid, pi_playerId = P1,
                  pi_name = Some (case nameOpt of None \<Rightarrow> ''Player'' | Some n \<Rightarrow> n)\<rparr>"
    and "t \<noteq> token \<Longrightarrow>
           players (snd (practiceHandler st difficultyOpt nameOpt token now)) t = players st t"
    and "\<exists>g. getGame (snd (practiceHandler st difficultyOpt nameOpt token now)) gid = Some g
             \<and> phase g = Input \<and> turn g = 0 \<and> winner g = None
             \<and> moves_p1 g = None \<and> moves_p2 g = None"
  by (simp_all add: practiceHandler_def Let_def gid_def saveGameToDB_frame
        startTurnTimer_players startTurnTimer_game getGame_setGame setGame_frame createGame_def
        getGame_upd)

lemma showNat_1: "showNat (Suc 0) = ''1''" "showNat 1 = ''1''"
  by (subst showNat.simps, simp add: digitChar_def)+

section \<open>Properties of the server\<close>

text \<open>
  Claim C4, as the code has it. A call of \<^verbatim>\<open>resolveIfReady\<close> that follows another one for
  the same game, with no move stored in between, changes nothing. A call that finds both
  moves present in the input phase advances the turn count by exactly one, and after it
  the handle of the timer that was armed for the turn is no longer pending, so the expiry
  of that timer does nothing. In a session without a bot, when a player's submission and
  the expiry of the turn's timer are both pending, the turn count has gone up by exactly
  one after the two have run, in either order.
\<close>

theorem resolution_at_most_once:
  "resolveIfReady (resolveIfReady st gid rnd now) gid rnd' now' = resolveIfReady st gid rnd now
   \<and> (getGame st gid = Some g \<and> phase g = Input \<and> moves_p1 g \<noteq> None \<and> moves_p2 g \<noteq> None \<longrightarrow>
        turnOf (resolveIfReady st gid rnd now) gid = Some (turn g + 1)
        \<and> (\<forall>h. turnTimer g = Some h \<and> h < nextTimer st \<longrightarrow>
              timers (resolveIfReady st gid rnd now) h = None
              \<and> fireTurnTimeout (resolveIfReady st gid rnd now) h rnd' now'
                  = resolveIfReady st gid rnd now))
   \<and> (tok \<noteq> [] \<and> players st tok = Some info \<and> getGame st (pi_gameId info) = Some g'
        \<and> phase g' = Input \<and> getMove g' (pi_playerId info) = None
        \<and> \<not> truthy (botDifficulty g') \<and> turnTimer g' = Some t
        \<and> timers st t = Some (TurnTimeout (pi_gameId info)) \<and> t < nextTimer st
        \<and> parseMove mv = Some m \<longrightarrow>
        turnOf (fireTurnTimeout
                  (snd (moveHandler st (Some tok) (Some mv) wait r1 r2 rnd now)) t rnd' now')
          (pi_gameId info) = Some (turn g' + 1)
        \<and> turnOf (snd (moveHandler (fireTurnTimeout st t rnd now) (Some tok) (Some mv)
                          wait r1 r2 rnd' now'))
            (pi_gameId info) = Some (turn g' + 1))"
proof -
  have a: "resolveIfReady (resolveIfReady st gid rnd now) gid rnd' now'
             = resolveIfReady st gid rnd now"
    by (rule resolveIfReady_idem)
  have b: "turnOf (resolveIfReady st gid rnd now) gid = Some (turn g + 1)
        \<and> (\<forall>h. turnTimer g = Some h \<and> h < nextTimer st \<longrightarrow>
              timers (resolveIfReady st gid rnd now) h = None
              \<and> fireTurnTimeout (resolveIfReady st gid rnd now) h rnd' now'
                  = resolveIfReady st gid rnd now)"
    if r: "getGame st gid = Some g" "phase g = Input" "moves_p1 g \<noteq> None" "moves_p2 g \<noteq> None"
  proof -
    have t1: "turnOf (resolveIfReady st gid rnd now) gid = Some (turn g + 1)"
      using resolveIfReady_ready(1)[OF r, of rnd now]
      by (simp add: turnOf_def resolved_fields)
    have t2: "timers (resolveIfReady st gid rnd now) h = None
              \<and> fireTurnTimeout (resolveIfReady st gid rnd now) h rnd' now'
                  = resolveIfReady st gid rnd now"
      if h: "turnTimer g = Some h" "h < nextTimer st" for h
    proof -
      have "timers (resolveIfReady st gid rnd now) h = None"
        using resolveIfReady_ready(4)[OF r h(2), of rnd now] h(1) by simp
      then show ?thesis by (simp add: fireTurnTimeout_cleared)
    qed
    from t1 t2 show ?thesis by blast
  qed
  have c: "turnOf (fireTurnTimeout
                  (snd (moveHandler st (Some tok) (Some mv) wait r1 r2 rnd now)) t rnd' now')
          (pi_gameId info) = Some (turn g' + 1)
        \<and> turnOf (snd (moveHandler (fireTurnTimeout st t rnd now) (Some tok) (Some mv)
                          wait r1 r2 rnd' now'))
            (pi_gameId info) = Some (turn g' + 1)"
    if "tok \<noteq> []" "players st tok = Some info" "getGame st (pi_gameId info) = Some g'"
      "phase g' = Input" "getMove g' (pi_playerId info) = None"
      "\<not> truthy (botDifficulty g')" "turnTimer g' = Some t"
      "timers st t = Some (TurnTimeout (pi_gameId info))" "t < nextTimer st"
      "parseMove mv = Some m"
    using race_submit_first[OF that, of wait r1 r2 rnd now rnd' now']
      race_timer_first[OF that(1-6) that(8) that(10), of rnd now wait r1 r2 rnd' now']
    by simp
  from a b c show ?thesis by blast
qed

theorem resolution_at_most_once_witness:
  "turnOf (fireTurnTimeout
             (snd (moveHandler pvpStarted (Some ''tokB'') (Some ''lunge'') False 0 0 0 301000))
             0 0 301100) ''g1'' = Some 1
   \<and> turnOf (snd (moveHandler (fireTurnTimeout pvpStarted 0 0 301100) (Some ''tokB'')
                     (Some ''lunge'') False 0 0 0 301200)) ''g1'' = Some 1"
proof -
  have h: "''tokB'' \<noteq> [] \<and> players pvpStarted ''tokB'' =
        Some \<lparr>pi_gameId = ''g1'', pi_playerId = P2, pi_name = Some ''Bob''\<rparr>
      \<and> getGame pvpStarted
          (pi_gameId \<lparr>pi_gameId = ''g1'', pi_playerId = P2, pi_name = Some ''Bob''\<rparr>)
          = Some pvpGame
      \<and> phase pvpGame = Input
      \<and> getMove pvpGame
          (pi_playerId \<lparr>pi_gameId = ''g1'', pi_playerId = P2, pi_name = Some ''Bob''\<rparr>) = None
      \<and> \<not> truthy (botDifficulty pvpGame) \<and> turnTimer pvpGame = Some 0
      \<and> timers pvpStarted 0 =
          Some (TurnTimeout
                  (pi_gameId \<lparr>pi_gameId = ''g1'', pi_playerId = P2, pi_name = Some ''Bob''\<rparr>))
      \<and> 0 < nextTimer pvpStarted
      \<and> parseMove ''lunge'' = Some Lunge"
    by (simp add: pvpStarted_facts pvpGame_def createGame_def getMove_def truthy_def
          parseMove_def)
  have v: "turn pvpGame = 0" by (simp add: pvpGame_def createGame_def)
  show ?thesis
    using h v
      resolution_at_most_once[of pvpStarted "''g1''" 0 301000 0 301100 pvpGame "''tokB''"
        "\<lparr>pi_gameId = ''g1'', pi_playerId = P2, pi_name = Some ''Bob''\<rparr>" pvpGame 0
        "''lunge''" Lunge False 0 0]
      resolution_at_most_once[of pvpStarted "''g1''" 0 301100 0 301200 pvpGame "''tokB''"
        "\<lparr>pi_gameId = ''g1'', pi_playerId = P2, pi_name = Some ''Bob''\<rparr>" pvpGame 0
        "''lunge''" Lunge False 0 0]
    by simp
qed

text \<open>
  Claim C4 as stated fails in a bot-controlled session. In the practice game just
  started (turn 0, timer 0 pending), the timer expires first and resolves turn 0 with two
  advances; the human's submission then counts for turn 1, the handler adds the bot's
  move and resolves again: the two pending events leave the turn count at 2.
\<close>

theorem practice_timer_then_submit_resolves_twice:
  "turnOf practiceStarted ''bot_1'' = Some 0
   \<and> timers practiceStarted 0 = Some (TurnTimeout ''bot_1'')
   \<and> turnOf (submit (fireTurnTimeout practiceStarted 0 0 301000) ''tokA'' ''advance'' 301001)
       ''bot_1'' = Some 2"
  by (simp add: practiceStarted_facts race_timer_then_submit_practice)

text \<open>
  Claim C5 at a concrete run. On an empty server the first practice game gets the id
  \<^verbatim>\<open>bot_1\<close>. After a restart with that game still in progress the registry holds
  \<^verbatim>\<open>bot_1\<close>, yet the counter is back at 1, because only ids of the form \<^verbatim>\<open>g<digits>\<close>
  count towards the maximum; the next practice game is given the id \<^verbatim>\<open>bot_1\<close> again.
\<close>

theorem restart_reuses_practice_id:
  "fst (practiceHandler (freshServer [] []) None None ''tokA'' 1000)
     = PracticeStarted ''tokA'' ''bot_1''
   \<and> map fst (games practiceRestarted) = [''bot_1'']
   \<and> gameIdCounter practiceRestarted = 1
   \<and> fst (practiceHandler practiceRestarted None None ''tokB'' 8000)
       = PracticeStarted ''tokB'' ''bot_1''"
  by (simp add: practiceHandler_result(1) practiceRestarted_facts showNat_1 freshServer_def)

text \<open>
  Claim C6. On a join request, let \<open>q'\<close> be the queue without its leading stale entries
  and \<open>name\<close> the requester's name. If every entry of \<open>q'\<close> has the requester's name and
  origin, nobody is paired: the requester is appended to \<open>q'\<close> and no token is bound (so
  a waiting entry is never paired with a request of its own name and origin, whatever
  the length of the queue). Otherwise the requester is paired with the first entry of
  \<open>q'\<close> whose name or origin differs, every entry before it shares both, that entry
  leaves the queue and the two tokens are bound to the new game as player 1 and player
  2. In particular a head entry with the requester's name and another origin is paired.
\<close>

theorem joinHandler_matching:
  fixes st :: server and nameOpt :: "string option" and ip :: origin and token :: string
    and wait :: bool and now :: int
  defines "name \<equiv> joinName nameOpt"
  defines "q' \<equiv> dropWhile (isStale now) (queue st)"
  defines "res \<equiv> joinHandler st nameOpt ip token wait now"
  defines "gid \<equiv> ''g'' @ showNat (gameIdCounter st)"
  shows "((\<forall>e\<in>set q'. q_name e = name \<and> q_ip e = ip) \<longrightarrow>
            fst res = (if wait then JoinDeferred else JoinWaiting token)
            \<and> queue (snd res) =
                q' @ [\<lparr>q_token = token, q_name = name, q_ip = ip, q_timestamp = now\<rparr>]
            \<and> players (snd res) = players st)
       \<and> ((\<exists>e\<in>set q'. q_name e \<noteq> name \<or> q_ip e \<noteq> ip) \<longrightarrow>
            (\<exists>i. i < length q' \<and> (q_name (q' ! i) \<noteq> name \<or> q_ip (q' ! i) \<noteq> ip)
               \<and> (\<forall>j<i. q_name (q' ! j) = name \<and> q_ip (q' ! j) = ip)
               \<and> (\<exists>s j. fst res = JoinMatched token gid P2 (q_name (q' ! i)) s j)
               \<and> queue (snd res) = take i q' @ drop (Suc i) q'
               \<and> players (snd res) =
                   (players st)
                     (q_token (q' ! i) \<mapsto> \<lparr>pi_gameId = gid, pi_playerId = P1,
                                             pi_name = Some (q_name (q' ! i))\<rparr>,
                      token \<mapsto> \<lparr>pi_gameId = gid, pi_playerId = P2, pi_name = Some name\<rparr>)))
       \<and> (\<forall>e rest. q' = e # rest \<and> q_name e = name \<and> q_ip e \<noteq> ip \<longrightarrow>
            (\<exists>s j. fst res = JoinMatched token gid P2 name s j) \<and> queue (snd res) = rest)"
proof -
  let ?P = "differs name ip"
  have a: "fst res = (if wait then JoinDeferred else JoinWaiting token)
            \<and> queue (snd res) =
                q' @ [\<lparr>q_token = token, q_name = name, q_ip = ip, q_timestamp = now\<rparr>]
            \<and> players (snd res) = players st"
    if "\<forall>e\<in>set q'. q_name e = name \<and> q_ip e = ip"
  proof -
    from that have "findIndex ?P q' = None"
      by (simp add: findIndex_None differs_def)
    then show ?thesis
      using joinHandler_unmatched[of nameOpt ip now st token wait]
      by (simp add: name_def q'_def res_def)
  qed
  have m: "(\<exists>s j. fst res = JoinMatched token gid P2 (q_name (q' ! i)) s j)
        \<and> queue (snd res) = take i q' @ drop (Suc i) q'
        \<and> players (snd res) =
            (players st)
              (q_token (q' ! i) \<mapsto> \<lparr>pi_gameId = gid, pi_playerId = P1,
                                      pi_name = Some (q_name (q' ! i))\<rparr>,
               token \<mapsto> \<lparr>pi_gameId = gid, pi_playerId = P2, pi_name = Some name\<rparr>)"
    if "findIndex ?P q' = Some i" for i
    using joinHandler_matched[of nameOpt ip now st i token wait] that
    by (simp add: name_def q'_def res_def gid_def)
  have b: "\<exists>i. i < length q' \<and> (q_name (q' ! i) \<noteq> name \<or> q_ip (q' ! i) \<noteq> ip)
               \<and> (\<forall>j<i. q_name (q' ! j) = name \<and> q_ip (q' ! j) = ip)
               \<and> (\<exists>s j. fst res = JoinMatched token gid P2 (q_name (q' ! i)) s j)
               \<and> queue (snd res) = take i q' @ drop (Suc i) q'
               \<and> players (snd res) =
                   (players st)
                     (q_token (q' ! i) \<mapsto> \<lparr>pi_gameId = gid, pi_playerId = P1,
                                             pi_name = Some (q_name (q' ! i))\<rparr>,
                      token \<mapsto> \<lparr>pi_gameId = gid, pi_playerId = P2, pi_name = Some name\<rparr>)"
    if "\<exists>e\<in>set q'. q_name e \<noteq> name \<or> q_ip e \<noteq> ip"
  proof -
    from that have "findIndex ?P q' \<noteq> None"
      by (simp add: findIndex_None differs_def)
    then obtain i where i: "findIndex ?P q' = Some i" by auto
    from findIndex_Some[OF i]
    have "i < length q'" "q_name (q' ! i) \<noteq> name \<or> q_ip (q' ! i) \<noteq> ip"
      "\<forall>j<i. q_name (q' ! j) = name \<and> q_ip (q' ! j) = ip"
      by (simp_all add: differs_def)
    with m[OF i] show ?thesis by blast
  qed
  have c: "(\<exists>s j. fst res = JoinMatched token gid P2 name s j) \<and> queue (snd res) = rest"
    if "q' = e # rest" "q_name e = name" "q_ip e \<noteq> ip" for e rest
  proof -
    have "findIndex ?P q' = Some 0"
      using that by (simp add: differs_def)
    from m[OF this] that show ?thesis by simp
  qed
  from a b c show ?thesis by blast
qed

theorem joinHandler_matching_witness:
  "fst (joinHandler pvpQueued (Some ''Ann'') (Ip ''10.0.0.1'') ''tokC'' False 1200)
     = JoinWaiting ''tokC''
   \<and> length (queue (snd (joinHandler pvpQueued (Some ''Ann'') (Ip ''10.0.0.1'') ''tokC''
                           False 1200))) = 2
   \<and> (\<exists>s j. fst (joinHandler pvpQueued (Some ''Ann'') (Ip ''10.0.0.2'') ''tokC'' False 1200)
              = JoinMatched ''tokC'' ''g1'' P2 ''Ann'' s j)
   \<and> queue (snd (joinHandler pvpQueued (Some ''Ann'') (Ip ''10.0.0.2'') ''tokC'' False 1200))
       = []"
proof -
  have q: "dropWhile (isStale 1200) (queue pvpQueued) =
      [\<lparr>q_token = ''tokA'', q_name = ''Ann'', q_ip = Ip ''10.0.0.1'', q_timestamp = 1000\<rparr>]"
    by (simp add: pvpQueued_facts isStale_def QUEUE_TIMEOUT_MS_def)
  have n: "joinName (Some ''Ann'') = ''Ann''"
    by (simp add: joinName_def orElse_def)
  have h1: "\<forall>e\<in>set (dropWhile (isStale 1200) (queue pvpQueued)).
              q_name e = joinName (Some ''Ann'') \<and> q_ip e = Ip ''10.0.0.1''"
    by (simp add: q n)
  have h2: "dropWhile (isStale 1200) (queue pvpQueued) =
              \<lparr>q_token = ''tokA'', q_name = ''Ann'', q_ip = Ip ''10.0.0.1'',
                q_timestamp = 1000\<rparr> # []
            \<and> q_name \<lparr>q_token = ''tokA'', q_name = ''Ann'', q_ip = Ip ''10.0.0.1'',
                       q_timestamp = 1000\<rparr> = joinName (Some ''Ann'')
            \<and> q_ip \<lparr>q_token = ''tokA'', q_name = ''Ann'', q_ip = Ip ''10.0.0.1'',
                     q_timestamp = 1000\<rparr> \<noteq> Ip ''10.0.0.2''"
    by (simp add: q n)
  from h1 joinHandler_matching[where st = pvpQueued and nameOpt = "Some ''Ann''"
      and ip = "Ip ''10.0.0.1''" and token = "''tokC''" and wait = False and now = 1200]
  have a: "fst (joinHandler pvpQueued (Some ''Ann'') (Ip ''10.0.0.1'') ''tokC'' False 1200)
             = JoinWaiting ''tokC''
         \<and> length (queue (snd (joinHandler pvpQueued (Some ''Ann'') (Ip ''10.0.0.1'') ''tokC''
                                 False 1200))) = 2"
    by (simp add: q n)
  from h2 joinHandler_matching[where st = pvpQueued and nameOpt = "Some ''Ann''"
      and ip = "Ip ''10.0.0.2''" and token = "''tokC''" and wait = False and now = 1200]
  have b: "(\<exists>s j. fst (joinHandler pvpQueued (Some ''Ann'') (Ip ''10.0.0.2'') ''tokC'' False 1200)
              = JoinMatched ''tokC'' ''g1'' P2 ''Ann'' s j)
   \<and> queue (snd (joinHandler pvpQueued (Some ''Ann'') (Ip ''10.0.0.2'') ''tokC'' False 1200))
       = []"
    by (simp add: n pvpQueued_facts showNat_1)
  from a b show ?thesis by blast
qed

text \<open>
  Claim C8, as the code has it. The move handler decides in this order, and in each of
  these cases leaves the whole server state as it was: a missing or empty token or move
  is an error; an unknown token is an error; a token whose game is missing is an error;
  a game that is over is answered with the terminal state (winner, turn count and the
  rendered state), whatever the move says; a move already pending for the caller is an
  error; a move that is not one of the four legal words is an error. In every other case
  the reply is not an error: the turn is resolved, or the reply is deferred, or the
  caller is told to wait for the opponent.
\<close>

theorem moveHandler_rejections:
  fixes st :: server and tokenOpt moveOpt :: "string option" and wait :: bool
    and r1 r2 rnd :: real and now :: int
  defines "res \<equiv> moveHandler st tokenOpt moveOpt wait r1 r2 rnd now"
  shows "(\<not> truthy tokenOpt \<or> \<not> truthy moveOpt \<longrightarrow> (\<exists>m. fst res = MoveError 400 m) \<and> snd res = st)
    \<and> (tokenOpt = Some tok \<and> tok \<noteq> [] \<and> moveOpt = Some mv \<and> mv \<noteq> [] \<longrightarrow>
         (players st tok = None \<longrightarrow>
            fst res = MoveError 404 ''Unknown token. Join first.'' \<and> snd res = st)
       \<and> (players st tok = Some info \<and> getGame st (pi_gameId info) = None \<longrightarrow>
            fst res = MoveError 404 ''Game not found'' \<and> snd res = st)
       \<and> (players st tok = Some info \<and> getGame st (pi_gameId info) = Some game \<longrightarrow>
            (phase game = Over \<longrightarrow>
               fst res = MoveGameOver (winner game) (turn game)
                           (compactState game (pi_playerId info))
               \<and> snd res = st)
          \<and> (phase game = Input \<and> getMove game (pi_playerId info) \<noteq> None \<longrightarrow>
               fst res = MoveError 400 ''Already submitted move this turn'' \<and> snd res = st)
          \<and> (phase game = Input \<and> getMove game (pi_playerId info) = None
               \<and> parseMove mv = None \<longrightarrow>
               fst res = MoveError 400 ''move must be: advance/retreat/lunge/parry''
               \<and> snd res = st)
          \<and> (phase game = Input \<and> getMove game (pi_playerId info) = None
               \<and> parseMove mv \<noteq> None \<longrightarrow>
               (\<exists>b t s j w. fst res \<in> {MoveResolved b t s j w, MoveDeferred, MoveWaiting}))))"
proof -
  have a: "\<not> truthy tokenOpt \<or> \<not> truthy moveOpt \<longrightarrow>
             (\<exists>m. fst res = MoveError 400 m) \<and> snd res = st"
    unfolding res_def
    using moveHandler_falsy[of tokenOpt moveOpt st wait r1 r2 rnd now] by auto
  have b: "tokenOpt = Some tok \<and> tok \<noteq> [] \<and> moveOpt = Some mv \<and> mv \<noteq> [] \<longrightarrow>
         (players st tok = None \<longrightarrow>
            fst res = MoveError 404 ''Unknown token. Join first.'' \<and> snd res = st)
       \<and> (players st tok = Some info \<and> getGame st (pi_gameId info) = None \<longrightarrow>
            fst res = MoveError 404 ''Game not found'' \<and> snd res = st)
       \<and> (players st tok = Some info \<and> getGame st (pi_gameId info) = Some game \<longrightarrow>
            (phase game = Over \<longrightarrow>
               fst res = MoveGameOver (winner game) (turn game)
                           (compactState game (pi_playerId info))
               \<and> snd res = st)
          \<and> (phase game = Input \<and> getMove game (pi_playerId info) \<noteq> None \<longrightarrow>
               fst res = MoveError 400 ''Already submitted move this turn'' \<and> snd res = st)
          \<and> (phase game = Input \<and> getMove game (pi_playerId info) = None
               \<and> parseMove mv = None \<longrightarrow>
               fst res = MoveError 400 ''move must be: advance/retreat/lunge/parry''
               \<and> snd res = st))"
    unfolding res_def
    by (auto simp add: moveHandler_known)
  have c: "tokenOpt = Some tok \<and> tok \<noteq> [] \<and> moveOpt = Some mv \<and> mv \<noteq> [] \<longrightarrow>
        players st tok = Some info \<and> getGame st (pi_gameId info) = Some game \<longrightarrow>
        phase game = Input \<and> getMove game (pi_playerId info) = None
               \<and> parseMove mv \<noteq> None \<longrightarrow>
               (\<exists>b t s j w. fst res \<in> {MoveResolved b t s j w, MoveDeferred, MoveWaiting})"
    unfolding res_def
    using moveHandler_accepted[of tok mv st info game _ wait r1 r2 rnd now] by auto
  from a b c show ?thesis by blast
qed

theorem moveHandler_rejections_witness:
  "fst (moveHandler pvpStarted (Some ''nobody'') (Some ''lunge'') False 0 0 0 1200)
     = MoveError 404 ''Unknown token. Join first.''
   \<and> snd (moveHandler pvpStarted (Some ''nobody'') (Some ''lunge'') False 0 0 0 1200)
       = pvpStarted
   \<and> fst (moveHandler practiceOver (Some ''tokA'') (Some ''dance'') False 0 0 0 7500)
       = MoveGameOver (Some WinP1) 6 (compactState practiceOverGame P1)
   \<and> snd (moveHandler practiceOver (Some ''tokA'') (Some ''dance'') False 0 0 0 7500)
       = practiceOver"
proof -
  have h1: "Some ''nobody'' = Some ''nobody'' \<and> ''nobody'' \<noteq> [] \<and> Some ''lunge'' = Some ''lunge''
            \<and> ''lunge'' \<noteq> [] \<and> players pvpStarted ''nobody'' = None"
    by (simp add: pvpStarted_facts)
  have h2: "Some ''tokA'' = Some ''tokA'' \<and> ''tokA'' \<noteq> [] \<and> Some ''dance'' = Some ''dance''
            \<and> ''dance'' \<noteq> []
            \<and> players practiceOver ''tokA'' =
                Some \<lparr>pi_gameId = ''bot_1'', pi_playerId = P1, pi_name = Some ''Player''\<rparr>
            \<and> getGame practiceOver
                (pi_gameId \<lparr>pi_gameId = ''bot_1'', pi_playerId = P1, pi_name = Some ''Player''\<rparr>)
                = Some practiceOverGame
            \<and> phase practiceOverGame = Over \<and> winner practiceOverGame = Some WinP1
            \<and> turn practiceOverGame = 6"
    by (simp add: practiceOver_facts practiceOverGame_def createGame_def)
  from h1
    moveHandler_rejections[where st = pvpStarted and tokenOpt = "Some ''nobody''"
      and moveOpt = "Some ''lunge''" and wait = False and ?r1.0 = 0 and ?r2.0 = 0 and rnd = 0
      and now = 1200 and tok = "''nobody''" and mv = "''lunge''"]
  have a: "fst (moveHandler pvpStarted (Some ''nobody'') (Some ''lunge'') False 0 0 0 1200)
     = MoveError 404 ''Unknown token. Join first.''
   \<and> snd (moveHandler pvpStarted (Some ''nobody'') (Some ''lunge'') False 0 0 0 1200)
       = pvpStarted"
    by simp
  from h2
    moveHandler_rejections[where st = practiceOver and tokenOpt = "Some ''tokA''"
      and moveOpt = "Some ''dance''" and wait = False and ?r1.0 = 0 and ?r2.0 = 0 and rnd = 0
      and now = 7500 and tok = "''tokA''" and mv = "''dance''"
      and info = "\<lparr>pi_gameId = ''bot_1'', pi_playerId = P1, pi_name = Some ''Player''\<rparr>"
      and game = practiceOverGame]
  have b: "fst (moveHandler practiceOver (Some ''tokA'') (Some ''dance'') False 0 0 0 7500)
       = MoveGameOver (Some WinP1) 6 (compactState practiceOverGame P1)
   \<and> snd (moveHandler practiceOver (Some ''tokA'') (Some ''dance'') False 0 0 0 7500)
       = practiceOver"
    by simp
  from a b show ?thesis by blast
qed

text \<open>
  Claim C8 as stated fails where the game is over and the request carries no move (or
  an empty one): the reply is the error \<^verbatim>\<open>move required\<close>, not the terminal state.
\<close>

theorem moveHandler_over_without_move_is_error:
  "players practiceOver ''tokA'' =
     Some \<lparr>pi_gameId = ''bot_1'', pi_playerId = P1, pi_name = Some ''Player''\<rparr>
   \<and> getGame practiceOver ''bot_1'' = Some practiceOverGame
   \<and> phase practiceOverGame = Over
   \<and> moveHandler practiceOver (Some ''tokA'') None False 0 0 0 7500
       = (MoveError 400 ''move required (advance/retreat/lunge/parry)'', practiceOver)
   \<and> moveHandler practiceOver (Some ''tokA'') (Some []) False 0 0 0 7500
       = (MoveError 400 ''move required (advance/retreat/lunge/parry)'', practiceOver)"
  by (simp add: practiceOver_facts practiceOverGame_def createGame_def moveHandler_def
        truthy_def)

text \<open>
  Claim C10 at a concrete run. In the run above the human's token is answered with
  \<^verbatim>\<open>game_over\<close>, turn 6, winner P1 once the game has ended. The practice game started next
  is registered under the same id \<^verbatim>\<open>bot_1\<close> (the counter was rebuilt as 1 at the restart)
  and takes the finished game's place in the registry: the same token is now answered
  with \<^verbatim>\<open>your_turn\<close>, turn 0 and no winner.
\<close>

theorem finished_game_replaced_after_restart:
  "(\<exists>r. stateHandler practiceOver ''tokA'' = StateOk r \<and> sr_status r = GameOverStatus
        \<and> sr_turn r = 6 \<and> sr_winner r = Some WinP1)
   \<and> fst practiceAgain = PracticeStarted ''tokB'' ''bot_1''
   \<and> (\<exists>r. stateHandler (snd practiceAgain) ''tokA'' = StateOk r \<and> sr_status r = YourTurn
          \<and> sr_turn r = 0 \<and> sr_winner r = None)"
proof -
  have a: "\<exists>r. stateHandler practiceOver ''tokA'' = StateOk r \<and> sr_status r = GameOverStatus
        \<and> sr_turn r = 6 \<and> sr_winner r = Some WinP1"
    by (simp add: stateHandler_def practiceOver_facts practiceOverGame_def createGame_def)
  have b: "fst practiceAgain = PracticeStarted ''tokB'' ''bot_1''"
    by (simp add: practiceAgain_def practiceHandler_result(1) practiceOver_facts showNat_1)
  have p: "players (snd practiceAgain) ''tokA'' =
     Some \<lparr>pi_gameId = ''bot_1'', pi_playerId = P1, pi_name = Some ''Player''\<rparr>"
    by (simp add: practiceAgain_def practiceHandler_result(3) practiceOver_facts)
  obtain g where g: "getGame (snd practiceAgain) ''bot_1'' = Some g" "phase g = Input"
    "turn g = 0" "winner g = None" "moves_p1 g = None" "moves_p2 g = None"
    using practiceHandler_result(4)[of practiceOver None None "''tokB''" 8000]
    by (auto simp add: practiceAgain_def practiceOver_facts showNat_1)
  have c: "\<exists>r. stateHandler (snd practiceAgain) ''tokA'' = StateOk r \<and> sr_status r = YourTurn
          \<and> sr_turn r = 0 \<and> sr_winner r = None"
    by (simp add: stateHandler_def p g getMove_def)
  from a b c show ?thesis by blast
qed

end
